theory Spec2Isabelle
  imports Complex_Main
begin

unbundle bit_operations_syntax

section \<open>Strings\<close>

text \<open>
  Source strings are modelled as \<^typ>\<open>string\<close>, one \<^typ>\<open>char\<close> per code unit below 256.
  The functions of this section are the parts of the JavaScript string library that the
  engine calls: \<^verbatim>\<open>trim\<close>, \<^verbatim>\<open>toLowerCase\<close>, \<^verbatim>\<open>toUpperCase\<close>, \<^verbatim>\<open>startsWith\<close>,
  \<^verbatim>\<open>endsWith\<close>, \<^verbatim>\<open>includes\<close>, \<^verbatim>\<open>split\<close> and \<^verbatim>\<open>join\<close>.
\<close>

definition is_space :: "char \<Rightarrow> bool" where
  \<comment> \<open>the class \<^verbatim>\<open>\s\<close>: tab, line feed, vertical tab, form feed, carriage return, space, no-break space\<close>
  "is_space c = (c = CHR 0x09 \<or> c = CHR 0x0A \<or> c = CHR 0x0B \<or> c = CHR 0x0C \<or> c = CHR 0x0D
     \<or> c = CHR 0x20 \<or> c = CHR 0xA0)"

definition is_line_end :: "char \<Rightarrow> bool" where
  "is_line_end c = (c = CHR 0x0A \<or> c = CHR 0x0D)"

definition is_digit :: "char \<Rightarrow> bool" where
  "is_digit c = (c \<in> set ''0123456789'')"

definition is_upper :: "char \<Rightarrow> bool" where
  "is_upper c = (c \<in> set ''ABCDEFGHIJKLMNOPQRSTUVWXYZ'')"

definition is_lower :: "char \<Rightarrow> bool" where
  "is_lower c = (c \<in> set ''abcdefghijklmnopqrstuvwxyz'')"

definition is_word :: "char \<Rightarrow> bool" where
  \<comment> \<open>the class \<^verbatim>\<open>\w\<close>\<close>
  "is_word c = (is_digit c \<or> is_upper c \<or> is_lower c \<or> c = CHR ''_'')"

definition lower_char :: "char \<Rightarrow> char" where
  \<comment> \<open>letters outside ASCII are left as they are\<close>
  "lower_char c = (case map_of (zip ''ABCDEFGHIJKLMNOPQRSTUVWXYZ'' ''abcdefghijklmnopqrstuvwxyz'') c of
                     Some d \<Rightarrow> d | None \<Rightarrow> c)"

definition upper_char :: "char \<Rightarrow> char" where
  "upper_char c = (case map_of (zip ''abcdefghijklmnopqrstuvwxyz'' ''ABCDEFGHIJKLMNOPQRSTUVWXYZ'') c of
                     Some d \<Rightarrow> d | None \<Rightarrow> c)"

definition toLowerCase :: "string \<Rightarrow> string" where
  "toLowerCase s = map lower_char s"


definition trim_js :: "string \<Rightarrow> string" where
  "trim_js s = rev (dropWhile is_space (rev (dropWhile is_space s)))"

fun startsWith :: "string \<Rightarrow> string \<Rightarrow> bool" where
  \<comment> \<open>\<^verbatim>\<open>s.startsWith(p)\<close>\<close>
  "startsWith s [] = True"
| "startsWith [] (p # ps) = False"
| "startsWith (c # cs) (p # ps) = (c = p \<and> startsWith cs ps)"

definition endsWith :: "string \<Rightarrow> string \<Rightarrow> bool" where
  "endsWith s p = startsWith (rev s) (rev p)"

fun includes_js :: "string \<Rightarrow> string \<Rightarrow> bool" where
  \<comment> \<open>\<^verbatim>\<open>s.includes(sub)\<close>\<close>
  "includes_js [] sub = (sub = [])"
| "includes_js (c # cs) sub = (startsWith (c # cs) sub \<or> includes_js cs sub)"

fun split_from :: "string \<Rightarrow> string \<Rightarrow> string \<Rightarrow> string list" where
  \<comment> \<open>scan for the separator from the left; \<open>acc\<close> is the current piece, reversed\<close>
  "split_from sep acc [] = [rev acc]"
| "split_from sep acc (c # cs) =
     (if sep \<noteq> [] \<and> startsWith (c # cs) sep
      then rev acc # split_from sep [] (drop (length sep - 1) cs)
      else split_from sep (c # acc) cs)"

definition split_js :: "string \<Rightarrow> string \<Rightarrow> string list" where
  \<comment> \<open>\<^verbatim>\<open>s.split(sep)\<close>; an empty separator splits into code units\<close>
  "split_js s sep = (if sep = [] then map (\<lambda>c. [c]) s else split_from sep [] s)"

fun join_js :: "string \<Rightarrow> string list \<Rightarrow> string" where
  "join_js sep [] = []"
| "join_js sep [x] = x"
| "join_js sep (x # y # ys) = x @ sep @ join_js sep (y # ys)"

section \<open>Regular expressions\<close>

text \<open>
  The engine is driven by regular-expression literals. They are kept as syntax trees and run by
  a backtracking matcher that returns every way to match in the order in which a backtracking
  engine tries them, so that the head of the list is the match JavaScript reports. A greedy
  quantifier lists the longer matches first, a lazy one the shorter. Look-behind is restricted
  to alternatives of one character or the start anchor, which is all the source uses.
\<close>

datatype bre = BSat "char \<Rightarrow> bool" | BBol | BAlt bre bre

datatype re =
    Sat "char \<Rightarrow> bool"
  | Lit string
  | Eps
  | Seq re re
  | Alt re re
  | Star bool re
  | Grp nat re
  | Bref nat
  | Bol
  | Eol
  | Ahead re
  | Behind bre
  | NBehind bre

type_synonym caps = "(nat \<times> string) list"

type_synonym mpos = "string \<times> string \<times> caps"

fun bmatch :: "bool \<Rightarrow> bre \<Rightarrow> string \<Rightarrow> bool" where
  \<comment> \<open>\<open>bmatch ml r b\<close>: \<open>b\<close> is the text before the position, nearest character first\<close>
  "bmatch ml (BSat p) b = (case b of [] \<Rightarrow> False | c # _ \<Rightarrow> p c)"
| "bmatch ml BBol b = (case b of [] \<Rightarrow> True | c # _ \<Rightarrow> ml \<and> is_line_end c)"
| "bmatch ml (BAlt r1 r2) b = (bmatch ml r1 b \<or> bmatch ml r2 b)"

fun match_lit :: "string \<Rightarrow> mpos \<Rightarrow> mpos list" where
  "match_lit [] z = [z]"
| "match_lit (c # cs) (b, [], k) = []"
| "match_lit (c # cs) (b, x # a, k) = (if x = c then match_lit cs (x # b, a, k) else [])"

fun rmatch :: "bool \<Rightarrow> nat \<Rightarrow> re \<Rightarrow> mpos \<Rightarrow> mpos list" where
  "rmatch ml n (Sat p) (b, a, k) = (case a of [] \<Rightarrow> [] | c # cs \<Rightarrow> if p c then [(c # b, cs, k)] else [])"
| "rmatch ml n (Lit s) z = match_lit s z"
| "rmatch ml n Eps z = [z]"
| "rmatch ml n (Seq r1 r2) z = concat (map (rmatch ml n r2) (rmatch ml n r1 z))"
| "rmatch ml n (Alt r1 r2) z = rmatch ml n r1 z @ rmatch ml n r2 z"
| "rmatch ml 0 (Star g r) z = [z]"
| "rmatch ml (Suc n) (Star g r) (b, a, k) =
     (let more = concat (map (\<lambda>(b', a', k'). if length a' < length a
                                then rmatch ml n (Star g r) (b', a', k') else [])
                             (rmatch ml (Suc n) r (b, a, k)))
      in if g then more @ [(b, a, k)] else (b, a, k) # more)"
| "rmatch ml n (Grp i r) (b, a, k) =
     map (\<lambda>(b', a', k'). (b', a', (i, take (length a - length a') a) # k')) (rmatch ml n r (b, a, k))"
| "rmatch ml n (Bref i) (b, a, k) =
     (case map_of k i of None \<Rightarrow> [(b, a, k)] | Some s \<Rightarrow> match_lit s (b, a, k))"
| "rmatch ml n Bol (b, a, k) = (if bmatch ml BBol b then [(b, a, k)] else [])"
| "rmatch ml n Eol (b, a, k) =
     (case a of [] \<Rightarrow> [(b, a, k)] | c # _ \<Rightarrow> if ml \<and> is_line_end c then [(b, a, k)] else [])"
| "rmatch ml n (Ahead r) z = (if rmatch ml n r z = [] then [] else [z])"
| "rmatch ml n (Behind r) (b, a, k) = (if bmatch ml r b then [(b, a, k)] else [])"
| "rmatch ml n (NBehind r) (b, a, k) = (if bmatch ml r b then [] else [(b, a, k)])"

record rmatched =
  m_whole :: string
  m_groups :: "string option list"
  m_offset :: nat

record regexp =
  rx_re :: re
  rx_groups :: nat
  rx_global :: bool
  rx_multiline :: bool

definition match_at :: "regexp \<Rightarrow> string \<Rightarrow> string \<Rightarrow> (rmatched \<times> string \<times> string) option" where
  \<comment> \<open>try the expression at one position; on success the match and the position after it\<close>
  "match_at rx b a =
     (case rmatch (rx_multiline rx) (Suc (length a)) (rx_re rx) (b, a, []) of
        [] \<Rightarrow> None
      | (b', a', k) # _ \<Rightarrow>
          Some (\<lparr>m_whole = take (length a - length a') a,
                 m_groups = map (\<lambda>i. map_of k i) [1 ..< Suc (rx_groups rx)],
                 m_offset = length b\<rparr>, b', a'))"

fun search_from :: "regexp \<Rightarrow> string \<Rightarrow> string \<Rightarrow> (rmatched \<times> string \<times> string) option" where
  \<comment> \<open>the leftmost match at or after the position\<close>
  "search_from rx b [] = match_at rx b []"
| "search_from rx b (c # cs) =
     (case match_at rx b (c # cs) of Some m \<Rightarrow> Some m | None \<Rightarrow> search_from rx (c # b) cs)"

definition re_test :: "regexp \<Rightarrow> string \<Rightarrow> bool" where
  \<comment> \<open>\<^verbatim>\<open>s.match(rx)\<close> used as a condition\<close>
  "re_test rx s = (search_from rx [] s \<noteq> None)"

fun seqs :: "re list \<Rightarrow> re" where
  "seqs [] = Eps"
| "seqs [r] = r"
| "seqs (r # r' # rs) = Seq r (seqs (r' # rs))"

fun alts :: "re list \<Rightarrow> re" where
  "alts [] = Eps"
| "alts [r] = r"
| "alts (r # r' # rs) = Alt r (alts (r' # rs))"

definition plus_re :: "bool \<Rightarrow> re \<Rightarrow> re" where
  \<comment> \<open>\<^verbatim>\<open>r+\<close> (greedy) and \<^verbatim>\<open>r+?\<close> (lazy)\<close>
  "plus_re g r = Seq r (Star g r)"

definition opt_re :: "re \<Rightarrow> re" where
  \<comment> \<open>\<^verbatim>\<open>r?\<close>\<close>
  "opt_re r = Alt r Eps"

definition cls :: "string \<Rightarrow> re" where
  \<comment> \<open>a character class \<^verbatim>\<open>[...]\<close>\<close>
  "cls s = Sat (\<lambda>c. c \<in> set s)"

definition ncls :: "string \<Rightarrow> re" where
  \<comment> \<open>a negated class \<^verbatim>\<open>[^...]\<close>\<close>
  "ncls s = Sat (\<lambda>c. c \<notin> set s)"

definition dot :: re where
  "dot = Sat (\<lambda>c. \<not> is_line_end c)"


definition digit_val :: "char \<Rightarrow> nat" where
  "digit_val c = (case map_of (zip ''0123456789'' [0 ..< 10]) c of Some d \<Rightarrow> d | None \<Rightarrow> 0)"

fun group_ref :: "rmatched \<Rightarrow> nat \<Rightarrow> string" where
  "group_ref m i = (if i = 0 \<or> length (m_groups m) < i then []
                    else (case m_groups m ! (i - 1) of None \<Rightarrow> [] | Some s \<Rightarrow> s))"

fun expand_repl :: "string \<Rightarrow> rmatched \<Rightarrow> string" where
  \<comment> \<open>a replacement string: \<^verbatim>\<open>$$\<close>, \<^verbatim>\<open>$&\<close> and \<^verbatim>\<open>$1\<close> to \<^verbatim>\<open>$9\<close> of a group that exists\<close>
  "expand_repl [] m = []"
| "expand_repl [c] m = [c]"
| "expand_repl (c # d # cs) m =
     (if c = CHR ''$'' \<and> d = CHR ''$'' then CHR ''$'' # expand_repl cs m
      else if c = CHR ''$'' \<and> d = CHR ''&'' then m_whole m @ expand_repl cs m
      else if c = CHR ''$'' \<and> d \<in> set ''123456789''
              \<and> digit_val d \<le> length (m_groups m)
      then group_ref m (digit_val d) @ expand_repl cs m
      else c # expand_repl (d # cs) m)"

section \<open>Values, failures and property access\<close>

text \<open>
  A value is a tree: objects are association lists in insertion order, arrays are lists, numbers
  are rationals (exact wherever the double-precision computation is exact). A deferred value
  \<open>VPromise ps v\<close> is a promise that is fulfilled with \<open>v\<close> and carries the own properties
  \<open>ps\<close> that have been assigned to the promise object. Functions are the closures that the
  template rules store in the scope, and named host functions. Inherited (prototype)
  properties and object identity are outside the model. \<open>Unsupported\<close> marks a point where
  the source leaves the modelled fragment; \<open>TypeError\<close> is the native error of the
  language, the other failures are the exception classes of the engine.
\<close>

datatype err =
    PropertyNotFound | PropertyTypeMismatch | PropertyRequired | ParameterTypeInvalid
  | VariableTypeInvalid | AssertFailed | ArgumentsLengthInvalid | WrongArgumentPosition
  | MathResultInvalid | TypeError | OutOfFuel | Unsupported

datatype fn =
    Native string
  | LineDirective string string "bool option"
  | BlockDirective string string nat string "bool option"
  | InlineDirective string "bool option"
  | VarConst string "bool option"
  | RunConst string "bool option"

datatype val =
    VUndef | VNull | VBool bool | VNum rat | VStr string
  | VArr "val list" | VObj "(string \<times> val) list"
  | VFun fn | VPromise "(string \<times> val) list" val | VScope

definition is_nullish :: "val \<Rightarrow> bool" where
  \<comment> \<open>\<^verbatim>\<open>v == null\<close>\<close>
  "is_nullish v = (v = VUndef \<or> v = VNull)"

definition nullish_or :: "val \<Rightarrow> val \<Rightarrow> val" where
  \<comment> \<open>\<^verbatim>\<open>a ?? b\<close>\<close>
  "nullish_or a b = (if is_nullish a then b else a)"

fun isString :: "val \<Rightarrow> bool" where
  "isString (VStr s) = True"
| "isString v = False"

fun isFunction :: "val \<Rightarrow> bool" where
  "isFunction (VFun f) = True"
| "isFunction v = False"

fun isArray :: "val \<Rightarrow> bool" where
  "isArray (VArr xs) = True"
| "isArray v = False"

fun isPromise :: "val \<Rightarrow> bool" where
  "isPromise (VPromise ps v) = True"
| "isPromise v = False"

fun isObject :: "val \<Rightarrow> bool" where
  \<comment> \<open>\<^verbatim>\<open>value instanceof Object\<close>\<close>
  "isObject (VArr xs) = True"
| "isObject (VObj kv) = True"
| "isObject (VFun f) = True"
| "isObject (VPromise ps v) = True"
| "isObject VScope = True"
| "isObject v = False"

fun isNumber :: "val \<Rightarrow> bool" where
  "isNumber (VNum r) = True"
| "isNumber v = False"

definition isEmptyString :: "val \<Rightarrow> bool \<Rightarrow> bool" where
  \<comment> \<open>\<^verbatim>\<open>isString(value) && trim ? value.trim() === "" : value === ""\<close>\<close>
  "isEmptyString v trim = (case v of VStr s \<Rightarrow> (if trim then trim_js s = [] else s = []) | _ \<Rightarrow> False)"

fun await_val :: "val \<Rightarrow> val" where
  \<comment> \<open>what \<^verbatim>\<open>await v\<close> yields\<close>
  "await_val (VPromise ps v) = await_val v"
| "await_val v = v"

definition then_js :: "(val \<Rightarrow> val) \<Rightarrow> val \<Rightarrow> val" where
  \<comment> \<open>\<^verbatim>\<open>p.then(f)\<close> for a callback that does not throw\<close>
  "then_js f p = VPromise [] (await_val (f (await_val p)))"

fun digits_of :: "nat \<Rightarrow> nat \<Rightarrow> string" where
  \<comment> \<open>decimal digits; the first argument bounds the number of digits\<close>
  "digits_of 0 n = []"
| "digits_of (Suc k) n =
     (if n < 10 then [''0123456789'' ! n] else digits_of k (n div 10) @ [''0123456789'' ! (n mod 10)])"

definition show_nat :: "nat \<Rightarrow> string" where
  "show_nat n = digits_of (Suc n) n"

definition show_int :: "int \<Rightarrow> string" where
  "show_int i = (if i < 0 then CHR ''-'' # show_nat (nat (- i)) else show_nat (nat i))"

definition is_integer :: "rat \<Rightarrow> bool" where
  "is_integer r = (r = of_int \<lfloor>r\<rfloor>)"

definition nat_of_digits :: "string \<Rightarrow> nat" where
  "nat_of_digits s = foldl (\<lambda>n c. 10 * n + digit_val c) 0 s"

definition idx_of :: "string \<Rightarrow> nat option" where
  \<comment> \<open>a property name that is an array index: decimal digits without a leading zero\<close>
  "idx_of k = (if k \<noteq> [] \<and> list_all is_digit k \<and> (k = ''0'' \<or> hd k \<noteq> CHR ''0'')
               then Some (nat_of_digits k) else None)"

fun prop_key :: "val \<Rightarrow> string option" where
  \<comment> \<open>the property name that a key value denotes\<close>
  "prop_key (VStr s) = Some s"
| "prop_key (VNum r) = (if is_integer r then Some (show_int \<lfloor>r\<rfloor>) else None)"
| "prop_key VUndef = Some ''undefined''"
| "prop_key VNull = Some ''null''"
| "prop_key (VBool b) = Some (if b then ''true'' else ''false'')"
| "prop_key v = None"

fun upd_kv :: "(string \<times> val) list \<Rightarrow> string \<Rightarrow> val \<Rightarrow> (string \<times> val) list" where
  \<comment> \<open>assignment to an own property keeps the place of an existing key\<close>
  "upd_kv [] k v = [(k, v)]"
| "upd_kv ((k', v') # kv) k v = (if k' = k then (k, v) # kv else (k', v') # upd_kv kv k v)"

definition get_prop :: "val \<Rightarrow> string \<Rightarrow> val" where
  \<comment> \<open>\<^verbatim>\<open>obj[key]\<close> on a value that is neither null nor undefined\<close>
  "get_prop obj k =
     (case obj of
        VObj kv \<Rightarrow> (case map_of kv k of Some v \<Rightarrow> v | None \<Rightarrow> VUndef)
      | VArr xs \<Rightarrow> (if k = ''length'' then VNum (of_nat (length xs))
                    else (case idx_of k of Some i \<Rightarrow> (if i < length xs then xs ! i else VUndef)
                          | None \<Rightarrow> VUndef))
      | VStr s \<Rightarrow> (if k = ''length'' then VNum (of_nat (length s))
                   else (case idx_of k of Some i \<Rightarrow> (if i < length s then VStr [s ! i] else VUndef)
                         | None \<Rightarrow> VUndef))
      | VPromise ps v \<Rightarrow> (case map_of ps k of Some w \<Rightarrow> w | None \<Rightarrow> VUndef)
      | _ \<Rightarrow> VUndef)"

definition has_own :: "val \<Rightarrow> string \<Rightarrow> bool" where
  \<comment> \<open>\<^verbatim>\<open>Object.hasOwn(obj, key)\<close> on a value that is neither null nor undefined\<close>
  "has_own obj k =
     (case obj of
        VObj kv \<Rightarrow> map_of kv k \<noteq> None
      | VArr xs \<Rightarrow> (k = ''length'' \<or> (case idx_of k of Some i \<Rightarrow> i < length xs | None \<Rightarrow> False))
      | VStr s \<Rightarrow> (k = ''length'' \<or> (case idx_of k of Some i \<Rightarrow> i < length s | None \<Rightarrow> False))
      | VPromise ps v \<Rightarrow> map_of ps k \<noteq> None
      | _ \<Rightarrow> False)"

definition checkProperty :: "val \<Rightarrow> string \<Rightarrow> err option" where
  \<comment> \<open>\<^verbatim>\<open>checkProperty(obj, prop)\<close> with \<^verbatim>\<open>skipEmpty = false\<close>\<close>
  "checkProperty obj k =
     (if is_nullish obj then Some TypeError
      else if \<not> has_own obj k \<or> is_nullish (get_prop obj k) then Some PropertyNotFound
      else None)"

definition getProperty :: "val \<Rightarrow> string \<Rightarrow> err + val" where
  "getProperty obj k = (case checkProperty obj k of Some e \<Rightarrow> Inl e | None \<Rightarrow> Inr (get_prop obj k))"

definition assign_prop :: "val \<Rightarrow> string \<Rightarrow> val \<Rightarrow> err + val" where
  \<comment> \<open>\<^verbatim>\<open>obj[key] = v\<close> in strict mode, returning the object after the write\<close>
  "assign_prop obj k v =
     (case obj of
        VObj kv \<Rightarrow> Inr (VObj (upd_kv kv k v))
      | VArr xs \<Rightarrow> (case idx_of k of
                      Some i \<Rightarrow> Inr (VArr (if i < length xs then xs[i := v]
                                            else xs @ replicate (i - length xs) VUndef @ [v]))
                    | None \<Rightarrow> Inl Unsupported)
      | VPromise ps w \<Rightarrow> Inr (VPromise (upd_kv ps k v) w)
      | VFun f \<Rightarrow> Inl Unsupported
      | VScope \<Rightarrow> Inl Unsupported
      | _ \<Rightarrow> Inl TypeError)"

section \<open>Scope and global variables (variables.ts)\<close>

text \<open>
  The scope of a call and the process-wide store \<^verbatim>\<open>VARS\<close> are maps from names to values; a
  name that is not bound reads as \<^verbatim>\<open>undefined\<close>. The evaluator threads both through every
  call as one state.
\<close>

type_synonym store = "string \<rightharpoonup> val"

record state =
  scope_of :: store
  vars_of :: store

definition lookup :: "store \<Rightarrow> string \<Rightarrow> val" where
  "lookup m k = (case m k of Some v \<Rightarrow> v | None \<Rightarrow> VUndef)"

fun walk :: "val \<Rightarrow> val list \<Rightarrow> val \<Rightarrow> err + val" where
  \<comment> \<open>the loop of \<^verbatim>\<open>getVar\<close> over the keys after the first, and the code after it\<close>
  "walk res [] d =
     Inr (if isPromise res then then_js (\<lambda>r. nullish_or r d) res else nullish_or res d)"
| "walk res (key # ks) d =
     (case prop_key key of
        None \<Rightarrow> Inl Unsupported
      | Some k \<Rightarrow>
          if isPromise res
          then walk (then_js (\<lambda>r. if is_nullish r then r else get_prop r k) res) ks d
          else if is_nullish res then Inr (nullish_or res d)
          else (let item = get_prop res k
                in if is_nullish item then Inr (nullish_or item d) else walk item ks d))"

fun getVar :: "val \<Rightarrow> store \<Rightarrow> store \<Rightarrow> val \<Rightarrow> err + val" where
  \<comment> \<open>\<^verbatim>\<open>getVar(name, scope, defaultValue)\<close>\<close>
  "getVar (VStr n) S G d = Inr (nullish_or (nullish_or (lookup S n) (lookup G n)) d)"
| "getVar (VArr []) S G d = Inl ParameterTypeInvalid"
| "getVar (VArr (h # ks)) S G d =
     (case getVar h S G d of Inl e \<Rightarrow> Inl e | Inr res \<Rightarrow> walk res ks d)"
| "getVar v S G d = Inl ParameterTypeInvalid"

fun assign_path :: "val \<Rightarrow> val list \<Rightarrow> val \<Rightarrow> err + val" where
  \<comment> \<open>the loop of \<^verbatim>\<open>setVar\<close> and the assignment after it: \<open>res\<close> is the object reached so far,
      the result is that object after the write below it\<close>
  "assign_path res [] v = Inr res"
| "assign_path res [key] v =
     (case prop_key key of None \<Rightarrow> Inl Unsupported | Some k \<Rightarrow> assign_prop res k v)"
| "assign_path res (key # key' # ks) v =
     (case prop_key key of
        None \<Rightarrow> Inl Unsupported
      | Some k \<Rightarrow>
          (case getProperty res k of
             Inl e \<Rightarrow> Inl e
           | Inr item \<Rightarrow>
               if isPromise res then Inl PropertyTypeMismatch
               else if isFunction item then Inl Unsupported
               else (case assign_path item (key' # ks) v of
                       Inl e \<Rightarrow> Inl e
                     | Inr item' \<Rightarrow> assign_prop res k item')))"

definition setVar :: "val \<Rightarrow> val \<Rightarrow> store \<Rightarrow> err + store" where
  \<comment> \<open>\<^verbatim>\<open>setVar(name, value)\<close>: the only argument besides the name and the value is \<^verbatim>\<open>VARS\<close>\<close>
  "setVar name v G =
     (case name of
        VStr n \<Rightarrow> Inr (G(n \<mapsto> v))
      | VNum r \<Rightarrow> (case prop_key (VNum r) of None \<Rightarrow> Inl Unsupported | Some n \<Rightarrow> Inr (G(n \<mapsto> v)))
      | VArr ks \<Rightarrow>
          (case prop_key (case ks of [] \<Rightarrow> VUndef | k # _ \<Rightarrow> k) of
             None \<Rightarrow> Inl Unsupported
           | Some n0 \<Rightarrow>
               if isPromise (lookup G n0) then Inl PropertyTypeMismatch
               else (case assign_path (lookup G n0)
                            (case ks of [] \<Rightarrow> [VUndef] | [k] \<Rightarrow> [k] | k # ks' \<Rightarrow> ks') v of
                       Inl e \<Rightarrow> Inl e
                     | Inr res' \<Rightarrow> Inr (G(n0 \<mapsto> res'))))
      | _ \<Rightarrow> Inl ParameterTypeInvalid)"

definition isVariable :: "string \<Rightarrow> bool" where
  "isVariable s = startsWith s ''$''"

definition isRunnableVariable :: "string \<Rightarrow> bool" where
  "isRunnableVariable s = startsWith s ''$$''"

definition getVariableHash :: "(string \<Rightarrow> string) \<Rightarrow> string \<Rightarrow> bool \<Rightarrow> string" where
  \<comment> \<open>the first argument is \<^verbatim>\<open>md5\<close> of functions.ts, which is not part of the sources\<close>
  "getVariableHash md5 s isSystem = (if isSystem then ''_'' else []) @ md5 s"

definition getVariableName :: "string \<Rightarrow> string" where
  "getVariableName name = ''$'' @ name"

definition getRunnableVariableName :: "string \<Rightarrow> string" where
  "getRunnableVariableName name = ''$$'' @ name"


section \<open>Commands and their dispatch (commands.ts)\<close>

text \<open>
  A registered command is its callback, its flag table and its argument descriptors. The
  callback is a host function: it is modelled as a function of the argument list it is called
  with, in which the scope object appears as \<open>VScope\<close>. The helpers of functions.ts are not
  part of the sources; the engine instance \<open>env\<close> carries them (\<^verbatim>\<open>md5\<close>,
  \<^verbatim>\<open>convertToCamelCase\<close>, \<^verbatim>\<open>stripSlashes\<close>) together with the command registry and the
  host functions that can be called by name.
\<close>

record cmd_arg =
  arg_name :: string
  arg_required :: bool
  arg_variadic :: bool
  arg_default :: val

record command =
  cmd_callback :: "val list \<Rightarrow> err + val"
  cmd_flags :: "(string \<times> val) list"
  cmd_args :: "cmd_arg list"

record env =
  md5 :: "string \<Rightarrow> string"
  convertToCamelCase :: "string \<Rightarrow> string \<Rightarrow> string"
  stripSlashes :: "string \<Rightarrow> string"
  commands :: "string \<rightharpoonup> command"
  natives :: "string \<Rightarrow> val list \<Rightarrow> err + val"

definition named_ind :: "cmd_arg list \<Rightarrow> string \<Rightarrow> nat option" where
  \<comment> \<open>\<^verbatim>\<open>namedArgs[k].ind\<close> as \<^verbatim>\<open>addCommand\<close> compiles it: a later descriptor of the same name
      overrides an earlier one\<close>
  "named_ind ds k = (case filter (\<lambda>i. arg_name (ds ! i) = k) (rev [0 ..< length ds]) of
                       [] \<Rightarrow> None | i # _ \<Rightarrow> Some i)"

definition isCommandCallable :: "env \<Rightarrow> val \<Rightarrow> bool" where
  "isCommandCallable E v = (case v of VStr n \<Rightarrow> commands E n \<noteq> None | _ \<Rightarrow> False)"

definition get_idx :: "val list \<Rightarrow> nat \<Rightarrow> val" where
  \<comment> \<open>reading an array slot; a hole reads as undefined\<close>
  "get_idx xs i = (if i < length xs then xs ! i else VUndef)"

definition set_idx :: "val list \<Rightarrow> nat \<Rightarrow> val \<Rightarrow> val list" where
  \<comment> \<open>writing an array slot; a write past the end leaves holes\<close>
  "set_idx xs i v = (if i < length xs then xs[i := v] else xs @ replicate (i - length xs) VUndef @ [v])"

definition wrap32 :: "int \<Rightarrow> int" where
  "wrap32 i = (i + 2 ^ 31) mod 2 ^ 32 - 2 ^ 31"

fun to_int32 :: "val \<Rightarrow> int option" where
  \<comment> \<open>the operand conversion of the bitwise operators; strings and objects are not modelled\<close>
  "to_int32 (VNum r) = Some (wrap32 (if 0 \<le> r then \<lfloor>r\<rfloor> else \<lceil>r\<rceil>))"
| "to_int32 (VBool b) = Some (if b then 1 else 0)"
| "to_int32 VNull = Some 0"
| "to_int32 VUndef = Some 0"
| "to_int32 v = None"

fun add_flags :: "(string \<times> val) list \<Rightarrow> string \<Rightarrow> val \<Rightarrow> err + val" where
  \<comment> \<open>\<^verbatim>\<open>for (const flag of modes) { mode |= (getProperty(flags, flag) ?? 0) }\<close>\<close>
  "add_flags fl [] m = Inr m"
| "add_flags fl (c # cs) m =
     (case getProperty (VObj fl) [c] of
        Inl e \<Rightarrow> Inl e
      | Inr fv \<Rightarrow>
          (case (to_int32 m, to_int32 fv) of
             (Some a, Some b) \<Rightarrow> add_flags fl cs (VNum (of_int (a OR b)))
           | _ \<Rightarrow> Inl Unsupported))"

record bstate =
  b_lastArgs :: "val list"
  b_key :: "string option"
  b_callbackArgs :: "val list"
  b_optional :: bool
  b_variadic :: bool

definition key_variadic :: "command \<Rightarrow> string \<Rightarrow> bool" where
  \<comment> \<open>\<^verbatim>\<open>commandNamedArgs[key].variadic\<close> for a key that has been checked\<close>
  "key_variadic c k = (case named_ind (cmd_args c) k of Some j \<Rightarrow> arg_variadic (cmd_args c ! j) | None \<Rightarrow> False)"

definition key_ind :: "command \<Rightarrow> string \<Rightarrow> nat" where
  "key_ind c k = (case named_ind (cmd_args c) k of Some j \<Rightarrow> j | None \<Rightarrow> 0)"

definition key_default :: "command \<Rightarrow> string \<Rightarrow> val" where
  "key_default c k = (case named_ind (cmd_args c) k of Some j \<Rightarrow> arg_default (cmd_args c ! j) | None \<Rightarrow> VUndef)"

definition is_long :: "val \<Rightarrow> bool" where
  \<comment> \<open>\<^verbatim>\<open>isString(arg) && arg.startsWith('--')\<close>\<close>
  "is_long v = (case v of VStr s \<Rightarrow> startsWith s ''--'' | _ \<Rightarrow> False)"

definition is_short :: "val \<Rightarrow> bool" where
  \<comment> \<open>\<^verbatim>\<open>isString(arg) && arg.startsWith('-')\<close>, tested after \<open>is_long\<close>\<close>
  "is_short v = (case v of VStr s \<Rightarrow> startsWith s ''-'' | _ \<Rightarrow> False)"

definition str_of :: "val \<Rightarrow> string" where
  "str_of v = (case v of VStr s \<Rightarrow> s | _ \<Rightarrow> [])"

fun drain :: "env \<Rightarrow> command \<Rightarrow> nat \<Rightarrow> cmd_arg \<Rightarrow> val list \<Rightarrow> bstate \<Rightarrow> err + val list \<times> bstate" where
  \<comment> \<open>the loop \<^verbatim>\<open>while (args.length)\<close> for the descriptor \<open>d\<close> at position \<open>i\<close>; the result is the
      tokens that are left when the loop ends or breaks\<close>
  "drain E c i d [] st = Inr ([], st)"
| "drain E c i d (arg # rest) st =
     (if is_long arg then
        (if b_variadic st then Inl WrongArgumentPosition
         else (let cb = (case b_key st of
                           Some k \<Rightarrow> (if \<not> key_variadic c k
                                      then set_idx (b_callbackArgs st) (key_ind c k) (VBool True)
                                      else b_callbackArgs st)
                         | None \<Rightarrow> b_callbackArgs st);
                   k' = convertToCamelCase E (drop 2 (str_of arg)) ''-''
               in if named_ind (cmd_args c) k' = None then Inl PropertyNotFound
                  else drain E c i d rest
                         (st\<lparr>b_optional := True, b_callbackArgs := cb, b_key := Some k'\<rparr>)))
      else if is_short arg then
        (if b_variadic st then Inl WrongArgumentPosition
         else (case named_ind (cmd_args c) ''mode'' of
                 None \<Rightarrow> Inl PropertyNotFound
               | Some mi \<Rightarrow>
                   (case add_flags (cmd_flags c) (drop 1 (str_of arg))
                           (nullish_or (get_idx (b_callbackArgs st) mi) (VNum 0)) of
                      Inl e \<Rightarrow> Inl e
                    | Inr m \<Rightarrow> drain E c i d rest
                                (st\<lparr>b_callbackArgs := set_idx (b_callbackArgs st) mi m\<rparr>))))
      else
        (case b_key st of
           Some k \<Rightarrow>
             (if \<not> key_variadic c k
              then Inr (rest, st\<lparr>b_callbackArgs := set_idx (b_callbackArgs st) (key_ind c k)
                                                     (nullish_or arg (key_default c k)),
                                b_key := None\<rparr>)
              else drain E c i d rest (st\<lparr>b_lastArgs := b_lastArgs st @ [arg]\<rparr>))
         | None \<Rightarrow>
             (if \<not> b_optional st then
                (if arg_variadic d
                 then drain E c i d rest (st\<lparr>b_lastArgs := b_lastArgs st @ [arg], b_variadic := True\<rparr>)
                 else Inr (rest, st\<lparr>b_callbackArgs := set_idx (b_callbackArgs st) i
                                                        (nullish_or arg (arg_default d))\<rparr>))
              else Inl WrongArgumentPosition)))"

fun bind_from :: "env \<Rightarrow> command \<Rightarrow> nat \<Rightarrow> cmd_arg list \<Rightarrow> val list \<Rightarrow> bstate \<Rightarrow> err + val list \<times> bstate" where
  \<comment> \<open>the loop \<^verbatim>\<open>for (let i = 0; i < commandArgs.length; i++)\<close> from position \<open>i\<close> on\<close>
  "bind_from E c i [] toks st = Inr (toks, st)"
| "bind_from E c i (d # ds) toks st =
     (if arg_name d = ''scope''
      then bind_from E c (Suc i) ds toks (st\<lparr>b_callbackArgs := set_idx (b_callbackArgs st) i VScope\<rparr>)
      else if arg_name d = ''mode'' \<and> i < length (cmd_args c)
      then bind_from E c (Suc i) ds toks st
      else if arg_variadic d \<and> i \<noteq> length (cmd_args c) - 1 then Inl WrongArgumentPosition
      else (case drain E c i d toks st of
              Inl e \<Rightarrow> Inl e
            | Inr (toks', st1) \<Rightarrow>
                (let cb1 = (case b_key st1 of
                              Some k \<Rightarrow> (if \<not> key_variadic c k
                                         then set_idx (b_callbackArgs st1) (key_ind c k) (VBool True)
                                         else b_callbackArgs st1)
                            | None \<Rightarrow> b_callbackArgs st1);
                     cb2 = (if \<not> arg_variadic d \<and> is_nullish (get_idx cb1 i)
                            then set_idx cb1 i (arg_default d) else cb1)
                 in if arg_required d \<and> ((is_nullish (get_idx cb2 i) \<and> \<not> arg_variadic d)
                                          \<or> (arg_variadic d \<and> b_lastArgs st1 = []))
                    then Inl PropertyRequired
                    else bind_from E c (Suc i) ds toks' (st1\<lparr>b_callbackArgs := cb2\<rparr>))))"

definition execFn :: "env \<Rightarrow> string \<Rightarrow> val list \<Rightarrow> err + val" where
  \<comment> \<open>\<^verbatim>\<open>execFn(fn, args, scope)\<close> for a command name; the native case is \<open>call_fn\<close> below\<close>
  "execFn E fn args =
     (case commands E fn of
        None \<Rightarrow> Inl PropertyNotFound
      | Some c \<Rightarrow>
          (case bind_from E c 0 (cmd_args c) args
                  \<lparr>b_lastArgs = [], b_key = None, b_callbackArgs = [], b_optional = False,
                   b_variadic = False\<rparr> of
             Inl e \<Rightarrow> Inl e
           | Inr (toks, st) \<Rightarrow>
               (let cb = (case named_ind (cmd_args c) ''mode'' of
                            Some mi \<Rightarrow> (if is_nullish (get_idx (b_callbackArgs st) mi)
                                        then set_idx (b_callbackArgs st) mi
                                               (nullish_or (arg_default (cmd_args c ! mi)) (VNum 0))
                                        else b_callbackArgs st)
                          | None \<Rightarrow> b_callbackArgs st)
                in if cmd_args c = [] \<and> toks \<noteq> [] then Inl ArgumentsLengthInvalid
                   else cmd_callback c (cb @ b_lastArgs st))))"

section \<open>Results, state passing and text replacement (utilities.ts)\<close>

text \<open>
  A computation takes the state and either fails or returns a value and the new state. In
  asynchronous mode a call returns a promise; the model returns what that promise is fulfilled
  with, and \<open>aw\<close> marks every \<^verbatim>\<open>await\<close> of the source. The conversions that
  \<^verbatim>\<open>Promise.all\<close> waits for are run one after the other, in the order in which the source
  starts them.
\<close>

type_synonym 'a result = "err + 'a \<times> state"

definition ret :: "'a \<Rightarrow> state \<Rightarrow> 'a result" where
  "ret x s = Inr (x, s)"

definition bnd :: "(state \<Rightarrow> 'a result) \<Rightarrow> ('a \<Rightarrow> state \<Rightarrow> 'b result) \<Rightarrow> state \<Rightarrow> 'b result" where
  "bnd m f s = (case m s of Inl e \<Rightarrow> Inl e | Inr (x, s') \<Rightarrow> f x s')"

definition lift :: "err + 'a \<Rightarrow> state \<Rightarrow> 'a result" where
  "lift r s = (case r of Inl e \<Rightarrow> Inl e | Inr x \<Rightarrow> Inr (x, s))"

fun mapM :: "('a \<Rightarrow> state \<Rightarrow> 'b result) \<Rightarrow> 'a list \<Rightarrow> state \<Rightarrow> 'b list result" where
  "mapM f [] s = Inr ([], s)"
| "mapM f (x # xs) s =
     (case f x s of
        Inl e \<Rightarrow> Inl e
      | Inr (y, s1) \<Rightarrow> (case mapM f xs s1 of Inl e \<Rightarrow> Inl e | Inr (ys, s2) \<Rightarrow> Inr (y # ys, s2)))"

definition aw :: "bool \<Rightarrow> val \<Rightarrow> val" where
  "aw a v = (if a then await_val v else v)"

fun truthy :: "val \<Rightarrow> bool" where
  "truthy VUndef = False"
| "truthy VNull = False"
| "truthy (VBool b) = b"
| "truthy (VNum r) = (r \<noteq> 0)"
| "truthy (VStr t) = (t \<noteq> [])"
| "truthy v = True"

fun replace_loop ::
  "regexp \<Rightarrow> (rmatched \<Rightarrow> 's \<Rightarrow> err + string \<times> 's) \<Rightarrow> nat \<Rightarrow> string \<Rightarrow> string \<Rightarrow> 's \<Rightarrow> err + string \<times> 's" where
  \<comment> \<open>\<^verbatim>\<open>input.replace(rx, f)\<close> from the position between \<open>b\<close> (reversed) and \<open>a\<close>; the number bounds
      the matches that are still possible\<close>
  "replace_loop rx cb 0 b a s = Inr (a, s)"
| "replace_loop rx cb (Suc n) b a s =
     (case search_from rx b a of
        None \<Rightarrow> Inr (a, s)
      | Some (m, b', a') \<Rightarrow>
          (case cb m s of
             Inl e \<Rightarrow> Inl e
           | Inr (r, s1) \<Rightarrow>
               (let skipped = take (m_offset m - length b) a
                in if \<not> rx_global rx then Inr (skipped @ r @ a', s1)
                   else if m_whole m = [] then
                     (case a' of
                        [] \<Rightarrow> Inr (skipped @ r, s1)
                      | c # cs \<Rightarrow> (case replace_loop rx cb n (c # b') cs s1 of
                                     Inl e \<Rightarrow> Inl e
                                   | Inr (t, s2) \<Rightarrow> Inr (skipped @ r @ c # t, s2)))
                   else (case replace_loop rx cb n b' a' s1 of
                           Inl e \<Rightarrow> Inl e
                         | Inr (t, s2) \<Rightarrow> Inr (skipped @ r @ t, s2)))))"

definition replace_fn ::
  "string \<Rightarrow> regexp \<Rightarrow> (rmatched \<Rightarrow> 's \<Rightarrow> err + string \<times> 's) \<Rightarrow> 's \<Rightarrow> err + string \<times> 's" where
  \<comment> \<open>\<^verbatim>\<open>replace(inputString, searchValue, replacer)\<close> with a function\<close>
  "replace_fn input rx cb s = replace_loop rx cb (Suc (length input)) [] input s"

definition replace_str :: "string \<Rightarrow> regexp \<Rightarrow> string \<Rightarrow> string" where
  \<comment> \<open>\<^verbatim>\<open>replace(inputString, searchValue, replacer)\<close> with a replacement string\<close>
  "replace_str input rx r =
     (case replace_fn input rx (\<lambda>m u. Inr (expand_repl r m, u)) () of
        Inl e \<Rightarrow> input | Inr (t, u) \<Rightarrow> t)"

section \<open>The rules of the core plug-in: patterns\<close>

definition rx :: "re \<Rightarrow> nat \<Rightarrow> regexp" where
  \<comment> \<open>a literal with the flag \<^verbatim>\<open>g\<close>\<close>
  "rx r k = \<lparr>rx_re = r, rx_groups = k, rx_global = True, rx_multiline = False\<rparr>"

definition ws :: re where
  "ws = Sat is_space"

definition HAS_MATH :: regexp where
  \<comment> \<open>\<^verbatim>\<open>/(===|!==|==|!=|>=|<=|>|<|-|\+|\*|\/|%)/g\<close>\<close>
  "HAS_MATH = rx (Grp 1 (alts [Lit ''==='', Lit ''!=='', Lit ''=='', Lit ''!='', Lit ''>='', Lit ''<='',
                               Lit ''>'', Lit ''<'', Lit ''-'', Lit ''+'', Lit ''*'', Lit ''/'', Lit ''%''])) 1"

definition IS_VARIABLE :: regexp where
  \<comment> \<open>\<^verbatim>\<open>/^\$+/\<close>\<close>
  "IS_VARIABLE = (rx (Seq Bol (plus_re True (Lit ''$''))) 0)\<lparr>rx_global := False\<rparr>"

definition NUMBER :: regexp where
  \<comment> \<open>\<^verbatim>\<open>/^-?\d+$/\<close>\<close>
  "NUMBER = (rx (seqs [Bol, opt_re (Lit ''-''), plus_re True (Sat is_digit), Eol]) 0)\<lparr>rx_global := False\<rparr>"

definition FLOAT :: regexp where
  \<comment> \<open>\<^verbatim>\<open>/^-?\d+\.\d+$/\<close>\<close>
  "FLOAT = (rx (seqs [Bol, opt_re (Lit ''-''), plus_re True (Sat is_digit), Lit ''.'',
                      plus_re True (Sat is_digit), Eol]) 0)\<lparr>rx_global := False\<rparr>"

definition BRACKETS :: regexp where
  \<comment> \<open>\<^verbatim>\<open>/(?<!\\)([`'"])(.*?)(?<!\\)\1/g\<close>\<close>
  "BRACKETS = rx (seqs [NBehind (BSat (\<lambda>c. c = CHR 0x5C)),
                        Grp 1 (Sat (\<lambda>c. c = CHR 0x60 \<or> c = CHR 0x27 \<or> c = CHR 0x22)),
                        Grp 2 (Star False dot),
                        NBehind (BSat (\<lambda>c. c = CHR 0x5C)),
                        Bref 1]) 2"

definition TRIM_BORDERS :: "regexp list" where
  \<comment> \<open>\<^verbatim>\<open>[/^\s+/g, /\s+$/g]\<close>\<close>
  "TRIM_BORDERS = [rx (Seq Bol (plus_re True ws)) 0, rx (Seq (plus_re True ws) Eol) 0]"

definition TRIM_SPACES :: regexp where
  \<comment> \<open>\<^verbatim>\<open>/\s\s+/g\<close>\<close>
  "TRIM_SPACES = rx (Seq ws (plus_re True ws)) 0"

definition TRIM_MATH :: regexp where
  \<comment> \<open>\<^verbatim>\<open>/\s*(,|:|\|\||&&|\?\?|===|!==|==|!=|>=|<=|>|<|\+|\*|\/|\||%)\s*/g\<close>\<close>
  "TRIM_MATH = rx (seqs [Star True ws,
                         Grp 1 (alts [Lit '','', Lit '':'', Lit ''||'', Lit ''&&'', Lit ''??'', Lit ''==='',
                                      Lit ''!=='', Lit ''=='', Lit ''!='', Lit ''>='', Lit ''<='', Lit ''>'',
                                      Lit ''<'', Lit ''+'', Lit ''*'', Lit ''/'', Lit ''|'', Lit ''%'']),
                         Star True ws]) 1"

definition TRIM_BRACES :: "regexp list" where
  \<comment> \<open>\<^verbatim>\<open>[/([[({])\s*/g, /\s*([)}\]])/g]\<close>\<close>
  "TRIM_BRACES = [rx (Seq (Grp 1 (cls ''[({'')) (Star True ws)) 1,
                  rx (Seq (Star True ws) (Grp 1 (cls '')}]''))) 1]"

definition MINUS :: regexp where
  \<comment> \<open>\<^verbatim>\<open>/(?<=\s|[[({*/+,&|><=%?:;]|^)(-\d+(\.\d+)?)(?=\s|[\])}*/+,&|!><=%?;]|$)/g\<close>\<close>
  "MINUS = rx (seqs [Behind (BAlt (BSat is_space) (BAlt (BSat (\<lambda>c. c \<in> set ''[({*/+,&|><=%?:;'')) BBol)),
                     Grp 1 (seqs [Lit ''-'', plus_re True (Sat is_digit),
                                  opt_re (Grp 2 (Seq (Lit ''.'') (plus_re True (Sat is_digit))))]),
                     Ahead (alts [ws, cls ''])}*/+,&|!><=%?;'', Eol])]) 2"

definition BRACES :: "regexp list" where
  \<comment> \<open>\<^verbatim>\<open>[/\(([^()]*?)\)/g, /\[([^[\]]*?)\]/g, /\{([^{}]*)\}/g]\<close>\<close>
  "BRACES = [rx (seqs [Lit ''('', Grp 1 (Star False (ncls ''()'')), Lit '')'']) 1,
             rx (seqs [Lit ''['', Grp 1 (Star False (ncls ''[]'')), Lit '']'']) 1,
             rx (seqs [Lit ''{'', Grp 1 (Star True (ncls ''{}'')), Lit ''}'']) 1]"







section \<open>The normaliser and the command splitter (parser.ts, rules of category parse)\<close>

text \<open>
  The rule lists are the ones that \<^verbatim>\<open>setConfig\<close> builds from the core plug-in and ext-js:
  \<^verbatim>\<open>registerRules\<close> sorts each category by \<^verbatim>\<open>order\<close> with a stable sort, so rules of equal
  order stay in the order in which they are written.
\<close>

datatype prule = P_brackets | P_trimBorders | P_trimSpaces | P_trimMath | P_trimBraces | P_minus | P_braces

definition PARSE :: "prule list" where
  "PARSE = [P_brackets, P_trimBorders, P_trimSpaces, P_trimMath, P_trimBraces, P_minus, P_braces]"

definition set_scope :: "string \<Rightarrow> val \<Rightarrow> state \<Rightarrow> state" where
  \<comment> \<open>\<^verbatim>\<open>scope[name] = value\<close>\<close>
  "set_scope n v s = s\<lparr>scope_of := (scope_of s)(n \<mapsto> v)\<rparr>"

definition int_of_string :: "string \<Rightarrow> int" where
  \<comment> \<open>\<^verbatim>\<open>parseInt\<close> on a string that matches \<open>NUMBER\<close>\<close>
  "int_of_string t = (case t of c # cs \<Rightarrow> (if c = CHR ''-'' then - int (nat_of_digits cs)
                                             else int (nat_of_digits t))
                      | [] \<Rightarrow> 0)"

definition rat_of_string :: "string \<Rightarrow> rat" where
  \<comment> \<open>\<^verbatim>\<open>parseFloat\<close> on a string that matches \<open>FLOAT\<close>\<close>
  "rat_of_string t =
     (let neg = startsWith t ''-'';
          u = (if neg then drop 1 t else t);
          ip = takeWhile (\<lambda>c. c \<noteq> CHR ''.'') u;
          fp = drop 1 (dropWhile (\<lambda>c. c \<noteq> CHR ''.'') u);
          r = of_nat (nat_of_digits ip) + of_nat (nat_of_digits fp) / (10 ^ length fp)
      in if neg then - r else r)"

fun prule_cb :: "env \<Rightarrow> prule \<Rightarrow> rmatched \<Rightarrow> state \<Rightarrow> string result" where
  "prule_cb E P_brackets m s =
     (let v = stripSlashes E (group_ref m 2); name = getVariableHash (md5 E) v True
      in Inr (getVariableName name, set_scope name (VStr v) s))"
| "prule_cb E P_trimBorders m s = Inr (expand_repl [] m, s)"
| "prule_cb E P_trimSpaces m s = Inr (expand_repl '' '' m, s)"
| "prule_cb E P_trimMath m s = Inr (expand_repl ''$1'' m, s)"
| "prule_cb E P_trimBraces m s = Inr (expand_repl ''$1'' m, s)"
| "prule_cb E P_minus m s =
     (let v = group_ref m 1; name = getVariableHash (md5 E) v True
      in Inr (getVariableName name,
              set_scope name (if re_test NUMBER v then VNum (of_int (int_of_string v))
                              else if re_test FLOAT v then VNum (rat_of_string v)
                              else VStr v) s))"
| "prule_cb E P_braces m s =
     (let v = m_whole m; name = getVariableHash (md5 E) v True
      in Inr (getRunnableVariableName name, set_scope name (VStr v) s))"

fun prule_regexps :: "prule \<Rightarrow> regexp list" where
  "prule_regexps P_brackets = [BRACKETS]"
| "prule_regexps P_trimBorders = TRIM_BORDERS"
| "prule_regexps P_trimSpaces = [TRIM_SPACES]"
| "prule_regexps P_trimMath = [TRIM_MATH]"
| "prule_regexps P_trimBraces = TRIM_BRACES"
| "prule_regexps P_minus = [MINUS]"
| "prule_regexps P_braces = BRACES"

fun replace_each :: "(rmatched \<Rightarrow> state \<Rightarrow> string result) \<Rightarrow> regexp list \<Rightarrow> string \<Rightarrow> state \<Rightarrow> string result" where
  \<comment> \<open>\<^verbatim>\<open>for (const expr of regexp) inputString = replace(inputString, expr, callback)\<close>\<close>
  "replace_each cb [] t s = Inr (t, s)"
| "replace_each cb (r # rs) t s =
     (case replace_fn t r cb s of Inl e \<Rightarrow> Inl e | Inr (t', s') \<Rightarrow> replace_each cb rs t' s')"

fun normalize_with :: "env \<Rightarrow> prule list \<Rightarrow> string \<Rightarrow> state \<Rightarrow> string result" where
  \<comment> \<open>\<^verbatim>\<open>replacer(PARSE_COMMAND, command, {scope})\<close>\<close>
  "normalize_with E [] t s = Inr (t, s)"
| "normalize_with E (p # ps) t s =
     (case replace_each (prule_cb E p) (prule_regexps p) t s of
        Inl e \<Rightarrow> Inl e | Inr (t', s') \<Rightarrow> normalize_with E ps t' s')"

definition normalize :: "env \<Rightarrow> string \<Rightarrow> state \<Rightarrow> string result" where
  "normalize E t s = normalize_with E PARSE t s"

datatype crule = C_end | C_fail | C_success | C_nullish | C_context | C_out | C_param

definition COMMANDS :: "crule list" where
  "COMMANDS = [C_end, C_fail, C_success, C_nullish, C_context, C_out, C_param]"

fun crule_key :: "crule \<Rightarrow> string" where
  "crule_key C_end = '';''"
| "crule_key C_fail = ''||''"
| "crule_key C_success = ''&&''"
| "crule_key C_nullish = ''??''"
| "crule_key C_context = ''|''"
| "crule_key C_out = ''>>''"
| "crule_key C_param = '' ''"

datatype subcommand = Leaf string | Node crule "subcommand list"

fun parseCommand :: "env \<Rightarrow> crule list \<Rightarrow> string \<Rightarrow> state \<Rightarrow> subcommand result"
  and parseCommands :: "env \<Rightarrow> crule list \<Rightarrow> string list \<Rightarrow> state \<Rightarrow> subcommand list result" where
  \<comment> \<open>\<^verbatim>\<open>parseCommand(command, scope, index)\<close>; the list is \<^verbatim>\<open>COMMANDS\<close> from \<^verbatim>\<open>index\<close> on\<close>
  "parseCommand E [] command s =
     (case normalize E command s of Inl e \<Rightarrow> Inl e | Inr (c', s') \<Rightarrow> Inr (Leaf c', s'))"
| "parseCommand E (r # rs) command s =
     (case normalize E command s of
        Inl e \<Rightarrow> Inl e
      | Inr (c', s') \<Rightarrow>
          if includes_js c' (crule_key r)
          then (case parseCommands E rs (split_js c' (crule_key r)) s' of
                  Inl e \<Rightarrow> Inl e | Inr (subs, s'') \<Rightarrow> Inr (Node r subs, s''))
          else parseCommand E rs c' s')"
| "parseCommands E rs [] s = Inr ([], s)"
| "parseCommands E rs (p # ps) s =
     (case parseCommand E rs p s of
        Inl e \<Rightarrow> Inl e
      | Inr (t, s1) \<Rightarrow> (case parseCommands E rs ps s1 of
                          Inl e \<Rightarrow> Inl e | Inr (ts, s2) \<Rightarrow> Inr (t # ts, s2)))"

section \<open>Math rules and the left fold (convert.ts, rules of category math)\<close>

datatype mrule = M_ge | M_le | M_eqv | M_neq | M_eq | M_ne | M_gt | M_lt | M_add | M_sub | M_mul | M_div | M_mod

definition MATH :: "mrule list" where
  "MATH = [M_ge, M_le, M_eqv, M_neq, M_eq, M_ne, M_gt, M_lt, M_add, M_sub, M_mul, M_div, M_mod]"

fun mrule_key :: "mrule \<Rightarrow> string" where
  "mrule_key M_ge = ''>=''"
| "mrule_key M_le = ''<=''"
| "mrule_key M_eqv = ''===''"
| "mrule_key M_neq = ''!==''"
| "mrule_key M_eq = ''==''"
| "mrule_key M_ne = ''!=''"
| "mrule_key M_gt = ''>''"
| "mrule_key M_lt = ''<''"
| "mrule_key M_add = ''+''"
| "mrule_key M_sub = ''-''"
| "mrule_key M_mul = ''*''"
| "mrule_key M_div = ''/''"
| "mrule_key M_mod = ''%''"

fun strict_eq :: "val \<Rightarrow> val \<Rightarrow> bool option" where
  \<comment> \<open>\<^verbatim>\<open>a === b\<close>; the identity of two objects is not modelled\<close>
  "strict_eq VUndef VUndef = Some True"
| "strict_eq VNull VNull = Some True"
| "strict_eq (VBool a) (VBool b) = Some (a = b)"
| "strict_eq (VNum a) (VNum b) = Some (a = b)"
| "strict_eq (VStr a) (VStr b) = Some (a = b)"
| "strict_eq a b = (if isObject a \<and> isObject b then None else Some False)"

definition num_of_string :: "string \<Rightarrow> rat option" where
  \<comment> \<open>the number that a string denotes, for decimal literals and the empty string\<close>
  "num_of_string t = (if trim_js t = [] then Some 0
                      else if re_test NUMBER t then Some (of_int (int_of_string t))
                      else if re_test FLOAT t then Some (rat_of_string t)
                      else None)"

definition unbool :: "val \<Rightarrow> val" where
  \<comment> \<open>a boolean operand of \<^verbatim>\<open>==\<close> is compared as a number\<close>
  "unbool v = (case v of VBool b \<Rightarrow> VNum (if b then 1 else 0) | _ \<Rightarrow> v)"

definition loose_eq :: "val \<Rightarrow> val \<Rightarrow> bool option" where
  \<comment> \<open>\<^verbatim>\<open>a == b\<close>; an object against a primitive is not modelled\<close>
  "loose_eq a b =
     (case (unbool a, unbool b) of
        (VNum x, VStr y) \<Rightarrow> (case num_of_string y of Some r \<Rightarrow> Some (x = r) | None \<Rightarrow> None)
      | (VStr x, VNum y) \<Rightarrow> (case num_of_string x of Some r \<Rightarrow> Some (r = y) | None \<Rightarrow> None)
      | (a', b') \<Rightarrow>
          (if is_nullish a' \<and> is_nullish b' then Some True
           else if is_nullish a' \<or> is_nullish b' then Some False
           else if isObject a' \<noteq> isObject b' then None
           else strict_eq a' b'))"

definition show_num :: "rat \<Rightarrow> string option" where
  \<comment> \<open>the text of a number, for integers\<close>
  "show_num r = (if is_integer r then Some (show_int \<lfloor>r\<rfloor>) else None)"

definition spread_kv :: "val \<Rightarrow> (string \<times> val) list option" where
  \<comment> \<open>the own enumerable properties that \<^verbatim>\<open>{...v}\<close> copies\<close>
  "spread_kv v = (case v of VObj kv \<Rightarrow> Some kv
                  | VArr xs \<Rightarrow> Some (map (\<lambda>i. (show_nat i, xs ! i)) [0 ..< length xs])
                  | _ \<Rightarrow> None)"

definition js_plus :: "val \<Rightarrow> val \<Rightarrow> err + val" where
  \<comment> \<open>\<^verbatim>\<open>a + b\<close> on numbers and strings\<close>
  "js_plus a b =
     (case (a, b) of
        (VNum x, VNum y) \<Rightarrow> Inr (VNum (x + y))
      | (VStr x, VStr y) \<Rightarrow> Inr (VStr (x @ y))
      | (VStr x, VNum y) \<Rightarrow> (case show_num y of Some t \<Rightarrow> Inr (VStr (x @ t)) | None \<Rightarrow> Inl Unsupported)
      | (VNum x, VStr y) \<Rightarrow> (case show_num x of Some t \<Rightarrow> Inr (VStr (t @ y)) | None \<Rightarrow> Inl Unsupported)
      | _ \<Rightarrow> Inl Unsupported)"

definition num_operands :: "val \<Rightarrow> val \<Rightarrow> (rat \<Rightarrow> rat \<Rightarrow> err + val) \<Rightarrow> err + val" where
  \<comment> \<open>two \<^verbatim>\<open>prepareProperty(context, operand, ArgumentCheck.NUMBER)\<close>, then the operation\<close>
  "num_operands a b f = (case (a, b) of (VNum x, VNum y) \<Rightarrow> f x y | _ \<Rightarrow> Inl PropertyTypeMismatch)"

definition add_operand_ok :: "val \<Rightarrow> bool" where
  \<comment> \<open>the type rule \<^verbatim>\<open>number | string | array | Object\<close>\<close>
  "add_operand_ok v = (isNumber v \<or> isString v \<or> isArray v \<or> isObject v)"

fun math_cb :: "mrule \<Rightarrow> val \<Rightarrow> val \<Rightarrow> err + val" where
  "math_cb M_ge a b = num_operands a b (\<lambda>x y. Inr (VBool (x \<ge> y)))"
| "math_cb M_le a b = num_operands a b (\<lambda>x y. Inr (VBool (x \<le> y)))"
| "math_cb M_eqv a b = (case strict_eq a b of Some r \<Rightarrow> Inr (VBool r) | None \<Rightarrow> Inl Unsupported)"
| "math_cb M_neq a b = (case strict_eq a b of Some r \<Rightarrow> Inr (VBool (\<not> r)) | None \<Rightarrow> Inl Unsupported)"
| "math_cb M_eq a b = (case loose_eq a b of Some r \<Rightarrow> Inr (VBool r) | None \<Rightarrow> Inl Unsupported)"
| "math_cb M_ne a b = (case loose_eq a b of Some r \<Rightarrow> Inr (VBool (\<not> r)) | None \<Rightarrow> Inl Unsupported)"
| "math_cb M_gt a b = num_operands a b (\<lambda>x y. Inr (VBool (x > y)))"
| "math_cb M_lt a b = num_operands a b (\<lambda>x y. Inr (VBool (x < y)))"
| "math_cb M_add a b =
     (if \<not> add_operand_ok a \<or> \<not> add_operand_ok b then Inl PropertyTypeMismatch
      else (case (a, b) of
              (VArr xs, VArr ys) \<Rightarrow> Inr (VArr (xs @ ys))
            | _ \<Rightarrow> (if isObject a \<and> isObject b
                    then (case (spread_kv a, spread_kv b) of
                            (Some ka, Some kb) \<Rightarrow> Inr (VObj (foldl (\<lambda>kv (k, v). upd_kv kv k v) ka kb))
                          | _ \<Rightarrow> Inl Unsupported)
                    else js_plus a b)))"
| "math_cb M_sub a b = num_operands a b (\<lambda>x y. Inr (VNum (x - y)))"
| "math_cb M_mul a b = num_operands a b (\<lambda>x y. Inr (VNum (x * y)))"
| "math_cb M_div a b = num_operands a b (\<lambda>x y. if y = 0 then Inl Unsupported else Inr (VNum (x / y)))"
| "math_cb M_mod a b =
     num_operands a b (\<lambda>x y. if y = 0 then Inl Unsupported
                              else Inr (VNum (x - y * of_int (if 0 \<le> x / y then \<lfloor>x / y\<rfloor> else \<lceil>x / y\<rceil>))))"

fun parseMath_loop :: "mrule \<Rightarrow> val \<Rightarrow> val list \<Rightarrow> err + val" where
  \<comment> \<open>\<^verbatim>\<open>for (let i = 1; i < operands.length; i++) res = callback({operand1: res, operand2: operands[i]})\<close>\<close>
  "parseMath_loop rule res [] = Inr res"
| "parseMath_loop rule res (x # xs) =
     (case math_cb rule res x of Inl e \<Rightarrow> Inl e | Inr res' \<Rightarrow> parseMath_loop rule res' xs)"

definition parseMath :: "mrule \<Rightarrow> val list \<Rightarrow> err + val" where
  "parseMath rule operands = (case operands of [] \<Rightarrow> Inr VUndef | x # xs \<Rightarrow> parseMath_loop rule x xs)"

definition math_checkValue :: "mrule \<Rightarrow> val list \<Rightarrow> err + val" where
  \<comment> \<open>\<^verbatim>\<open>checkValue\<close> of the rule \<^verbatim>\<open>isMath\<close>\<close>
  "math_checkValue rule operands =
     (case parseMath rule operands of
        Inl e \<Rightarrow> Inl e
      | Inr res \<Rightarrow> if res \<noteq> VUndef then Inr res else Inl MathResultInvalid)"

section \<open>The evaluator (parser.ts, convert.ts, rules of categories command and convert)\<close>

text \<open>
  \<^verbatim>\<open>exec\<close>, \<^verbatim>\<open>execCommand\<close>, \<^verbatim>\<open>convert\<close> and the call of a function value call each other
  without a bound (a variable may hold a text that refers to itself), so each of them is
  written as a body over the function \<open>rec\<close> that stands for the nested calls, and \<open>ev\<close> ties
  them with a depth counter: a nested call that would exceed it is the failure \<open>OutOfFuel\<close>.
  The flags of a call are \<^verbatim>\<open>exec\<close> and \<^verbatim>\<open>async\<close>.
\<close>

datatype call =
    Exec string bool bool
  | ExecCommand subcommand bool bool
  | Convert val bool bool
  | CallFn fn "val list"

type_synonym recf = "call \<Rightarrow> state \<Rightarrow> val result"

definition map_val :: "(val \<Rightarrow> val) \<Rightarrow> val result \<Rightarrow> val result" where
  "map_val f r = (case r of Inl e \<Rightarrow> Inl e | Inr (v, s) \<Rightarrow> Inr (f v, s))"

definition convertArray :: "recf \<Rightarrow> val list \<Rightarrow> bool \<Rightarrow> bool \<Rightarrow> state \<Rightarrow> val list result" where
  \<comment> \<open>\<^verbatim>\<open>convertArray(arr, scope, exec, async)\<close>\<close>
  "convertArray rec arr x a s =
     (case mapM (\<lambda>v. rec (Convert v x a)) arr s of
        Inl e \<Rightarrow> Inl e | Inr (vs, s') \<Rightarrow> Inr (map (aw a) vs, s'))"

definition convertEntityItem :: "recf \<Rightarrow> val \<times> val \<Rightarrow> bool \<Rightarrow> bool \<Rightarrow> state \<Rightarrow> (val \<times> val) result" where
  "convertEntityItem rec item x a s =
     (case rec (Convert (fst item) x a) s of
        Inl e \<Rightarrow> Inl e
      | Inr (k, s1) \<Rightarrow> (case rec (Convert (snd item) x a) s1 of
                          Inl e \<Rightarrow> Inl e | Inr (v, s2) \<Rightarrow> Inr ((aw a k, aw a v), s2)))"

fun fromEntries :: "(val \<times> val) list \<Rightarrow> (string \<times> val) list \<Rightarrow> (string \<times> val) list option" where
  \<comment> \<open>\<^verbatim>\<open>Object.fromEntries\<close>; keys keep the order in which they are first written\<close>
  "fromEntries [] acc = Some acc"
| "fromEntries ((k, v) # kvs) acc =
     (case prop_key k of None \<Rightarrow> None | Some n \<Rightarrow> fromEntries kvs (upd_kv acc n v))"

definition convertObjectFromEntities ::
  "recf \<Rightarrow> (val \<times> val) list \<Rightarrow> bool \<Rightarrow> bool \<Rightarrow> state \<Rightarrow> val result" where
  "convertObjectFromEntities rec arr x a s =
     (case mapM (\<lambda>item. convertEntityItem rec item x a) arr s of
        Inl e \<Rightarrow> Inl e
      | Inr (kvs, s') \<Rightarrow> (case fromEntries kvs [] of
                            None \<Rightarrow> Inl Unsupported | Some obj \<Rightarrow> Inr (VObj obj, s')))"

fun object_entries :: "string list \<Rightarrow> nat \<Rightarrow> (val \<times> val) list" where
  \<comment> \<open>the loop over the items of an object literal: an item without a key takes the next index\<close>
  "object_entries [] ind = []"
| "object_entries (item # items) ind =
     (case split_js item '':'' of
        k # v # rest \<Rightarrow> (VStr k, VStr v) # object_entries items ind
      | [v] \<Rightarrow> (VNum (of_nat ind), VStr v) # object_entries items (Suc ind)
      | [] \<Rightarrow> (VNum (of_nat ind), VUndef) # object_entries items (Suc ind))"

definition inner_text :: "string \<Rightarrow> string" where
  \<comment> \<open>\<^verbatim>\<open>value.substring(1, value.length - 1)\<close>\<close>
  "inner_text t = take (length t - 2) (drop 1 t)"

definition var_checkValue :: "recf \<Rightarrow> val \<Rightarrow> bool \<Rightarrow> state \<Rightarrow> val result" where
  \<comment> \<open>\<^verbatim>\<open>checkValue\<close> of the rule \<^verbatim>\<open>isVariable\<close>: what a reference with \<^verbatim>\<open>$$\<close> runs\<close>
  "var_checkValue rec v a s =
     (case v of
        VStr t \<Rightarrow>
          (if startsWith t ''('' \<and> endsWith t '')'' then rec (Exec (inner_text t) True a) s
           else if startsWith t ''['' \<and> endsWith t '']'' then
             (if isEmptyString (VStr (inner_text t)) True then Inr (VArr [], s)
              else (case convertArray rec (map VStr (split_js (inner_text t) '','')) False a s of
                      Inl e \<Rightarrow> Inl e | Inr (vs, s') \<Rightarrow> Inr (VArr vs, s')))
           else if startsWith t ''{'' \<and> endsWith t ''}'' then
             (if isEmptyString (VStr (inner_text t)) True then Inr (VObj [], s)
              else convertObjectFromEntities rec (object_entries (split_js (inner_text t) '','') 0) False a s)
           else rec (Exec t True a) s)
      | VArr xs \<Rightarrow> (case convertArray rec xs False a s of
                      Inl e \<Rightarrow> Inl e | Inr (vs, s') \<Rightarrow> Inr (VArr vs, s'))
      | VFun f \<Rightarrow> rec (CallFn f []) s
      | _ \<Rightarrow> Inr (v, s))"

fun math_split :: "recf \<Rightarrow> mrule list \<Rightarrow> string \<Rightarrow> bool \<Rightarrow> state \<Rightarrow> val result option" where
  \<comment> \<open>\<^verbatim>\<open>for (const math of MATH)\<close> in the rule \<^verbatim>\<open>isMath\<close>; \<open>None\<close> is \<^verbatim>\<open>throw new Continue()\<close>\<close>
  "math_split rec [] t a s = None"
| "math_split rec (m # ms) t a s =
     (if length (split_js t (mrule_key m)) > 1
      then Some (case convertArray rec (map VStr (split_js t (mrule_key m))) False a s of
                   Inl e \<Rightarrow> Inl e
                 | Inr (operands, s') \<Rightarrow> lift (math_checkValue m operands) s')
      else math_split rec ms t a s)"

datatype vrule =
    V_isString | V_isNull | V_isUndefined | V_isEmptyString | V_isTrue | V_isFalse | V_isNumber
  | V_isFloat | V_isKeys | V_isMath | V_isVariable | V_isCommand

definition CONVERT :: "vrule list" where
  "CONVERT = [V_isString, V_isNull, V_isUndefined, V_isEmptyString, V_isTrue, V_isFalse, V_isNumber,
              V_isFloat, V_isKeys, V_isMath, V_isVariable, V_isCommand]"

definition on_string :: "val \<Rightarrow> (string \<Rightarrow> val result option) \<Rightarrow> val result option" where
  \<comment> \<open>the rules after \<^verbatim>\<open>isString\<close> call string methods on the value\<close>
  "on_string v f = (case v of VStr t \<Rightarrow> f t | _ \<Rightarrow> Some (Inl TypeError))"

fun convert_rule :: "env \<Rightarrow> recf \<Rightarrow> vrule \<Rightarrow> val \<Rightarrow> bool \<Rightarrow> bool \<Rightarrow> state \<Rightarrow> val result option" where
  \<comment> \<open>the callback of a rule (its \<^verbatim>\<open>callbackAsync\<close> when \<open>a\<close> holds and the rule has one); \<open>None\<close>
      is \<^verbatim>\<open>throw new Continue()\<close>\<close>
  "convert_rule E rec V_isString v x a s = (if \<not> isString v then Some (Inr (v, s)) else None)"
| "convert_rule E rec V_isNull v x a s =
     on_string v (\<lambda>t. if toLowerCase t = ''null'' then Some (Inr (VNull, s)) else None)"
| "convert_rule E rec V_isUndefined v x a s =
     on_string v (\<lambda>t. if toLowerCase t = ''undefined'' then Some (Inr (VUndef, s)) else None)"
| "convert_rule E rec V_isEmptyString v x a s =
     (if isEmptyString v False then Some (Inr (VStr [], s)) else None)"
| "convert_rule E rec V_isTrue v x a s =
     on_string v (\<lambda>t. if toLowerCase t = ''true'' then Some (Inr (VBool True, s)) else None)"
| "convert_rule E rec V_isFalse v x a s =
     on_string v (\<lambda>t. if toLowerCase t = ''false'' then Some (Inr (VBool False, s)) else None)"
| "convert_rule E rec V_isNumber v x a s =
     on_string v (\<lambda>t. if re_test NUMBER t then Some (Inr (VNum (of_int (int_of_string t)), s)) else None)"
| "convert_rule E rec V_isFloat v x a s =
     on_string v (\<lambda>t. if re_test FLOAT t then Some (Inr (VNum (rat_of_string t), s)) else None)"
| "convert_rule E rec V_isKeys v x a s =
     on_string v (\<lambda>t. if startsWith t ''-'' then Some (Inr (VStr t, s)) else None)"
| "convert_rule E rec V_isMath v x a s =
     on_string v (\<lambda>t. if re_test HAS_MATH t then math_split rec MATH t a s else None)"
| "convert_rule E rec V_isVariable v x a s =
     on_string v (\<lambda>t.
       if isVariable t then
         Some (case convertArray rec (map VStr (split_js (replace_str t IS_VARIABLE []) ''.'')) False a s of
                 Inl e \<Rightarrow> Inl e
               | Inr (vs, s1) \<Rightarrow>
                   (case getVar (VArr vs) (scope_of s1) (vars_of s1) VUndef of
                      Inl e \<Rightarrow> Inl e
                    | Inr res \<Rightarrow>
                        if is_nullish (aw a res) then Inr (aw a res, s1)
                        else if isRunnableVariable t then var_checkValue rec (aw a res) a s1
                        else Inr (aw a res, s1)))
       else None)"
| "convert_rule E rec V_isCommand v x a s =
     (if isCommandCallable E v \<and> x then Some (lift (execFn E (str_of v) []) s) else None)"

fun convert_ladder :: "env \<Rightarrow> recf \<Rightarrow> vrule list \<Rightarrow> val \<Rightarrow> bool \<Rightarrow> bool \<Rightarrow> state \<Rightarrow> val result" where
  \<comment> \<open>\<^verbatim>\<open>convertSync\<close> and \<^verbatim>\<open>convertAsync\<close>: the first rule that does not continue decides\<close>
  "convert_ladder E rec [] v x a s = Inr (v, s)"
| "convert_ladder E rec (r # rs) v x a s =
     (case convert_rule E rec r v x a s of
        Some res \<Rightarrow> map_val (aw a) res
      | None \<Rightarrow> convert_ladder E rec rs v x a s)"

definition is_empty_part :: "subcommand \<Rightarrow> bool" where
  \<comment> \<open>\<^verbatim>\<open>isEmptyString(part, true)\<close>\<close>
  "is_empty_part p = (case p of Leaf t \<Rightarrow> isEmptyString (VStr t) True | Node r ps \<Rightarrow> False)"

fun end_loop :: "recf \<Rightarrow> bool \<Rightarrow> subcommand list \<Rightarrow> val \<Rightarrow> state \<Rightarrow> val result" where
  "end_loop rec a [] res s = Inr (res, s)"
| "end_loop rec a (part # parts) res s =
     (if is_empty_part part then end_loop rec a parts VUndef s
      else (case rec (ExecCommand part True a) s of
              Inl e \<Rightarrow> Inl e
            | Inr (r, s') \<Rightarrow> end_loop rec a parts (aw a r) s'))"

fun until_loop :: "(val \<Rightarrow> bool) \<Rightarrow> recf \<Rightarrow> bool \<Rightarrow> subcommand list \<Rightarrow> val \<Rightarrow> state \<Rightarrow> val result" where
  \<comment> \<open>the loop shared by \<^verbatim>\<open>||\<close>, \<^verbatim>\<open>&&\<close> and \<^verbatim>\<open>??\<close>: return the first result that satisfies the test\<close>
  "until_loop stop rec a [] res s = Inr (res, s)"
| "until_loop stop rec a (part # parts) res s =
     (case rec (ExecCommand part True a) s of
        Inl e \<Rightarrow> Inl e
      | Inr (r, s') \<Rightarrow> if stop (aw a r) then Inr (aw a r, s') else until_loop stop rec a parts (aw a r) s')"

fun context_loop :: "recf \<Rightarrow> bool \<Rightarrow> subcommand list \<Rightarrow> val \<Rightarrow> state \<Rightarrow> val result" where
  "context_loop rec a [] res s = Inr (res, s)"
| "context_loop rec a (part # parts) res s =
     (case rec (ExecCommand part True a)
             (if res \<noteq> VUndef then set_scope ''context'' res s else s) of
        Inl e \<Rightarrow> Inl e
      | Inr (r, s') \<Rightarrow>
          context_loop rec a parts (aw a r) (set_scope ''context'' (lookup (scope_of s) ''context'') s'))"

fun out_loop :: "recf \<Rightarrow> bool \<Rightarrow> subcommand list \<Rightarrow> val \<Rightarrow> state \<Rightarrow> val result" where
  "out_loop rec a [] res s = Inr (res, s)"
| "out_loop rec a (part # parts) res s =
     (case rec (ExecCommand part True a) s of
        Inl e \<Rightarrow> Inl e
      | Inr (variable, s') \<Rightarrow>
          (case setVar (aw a variable) res (vars_of s') of
             Inl e \<Rightarrow> Inl e
           | Inr G \<Rightarrow> out_loop rec a parts res (s'\<lparr>vars_of := G\<rparr>)))"

definition param_checkValue :: "env \<Rightarrow> recf \<Rightarrow> val list \<Rightarrow> state \<Rightarrow> val result" where
  \<comment> \<open>\<^verbatim>\<open>checkValue\<close> of the rule \<^verbatim>\<open>param\<close>\<close>
  "param_checkValue E rec value s =
     (case value of
        [] \<Rightarrow> Inr (VUndef, s)
      | fn # rest \<Rightarrow>
          if isCommandCallable E fn then lift (execFn E (str_of fn) rest) s
          else (case fn of
                  VFun f \<Rightarrow> rec (CallFn f rest) s
                | _ \<Rightarrow> if length value > 1 then Inr (VArr value, s) else Inr (fn, s)))"

definition part_value :: "subcommand \<Rightarrow> val" where
  \<comment> \<open>a child handed to \<^verbatim>\<open>convert\<close>: the children of \<^verbatim>\<open>param\<close>, the last rule, are texts\<close>
  "part_value p = (case p of Leaf t \<Rightarrow> VStr t | Node r ps \<Rightarrow> VUndef)"

fun crule_cb :: "env \<Rightarrow> recf \<Rightarrow> crule \<Rightarrow> subcommand list \<Rightarrow> bool \<Rightarrow> state \<Rightarrow> val result" where
  \<comment> \<open>the callback of a command rule (\<^verbatim>\<open>callbackAsync\<close> when \<open>a\<close> holds)\<close>
  "crule_cb E rec C_end parts a s = end_loop rec a parts VUndef s"
| "crule_cb E rec C_fail parts a s = until_loop truthy rec a parts VUndef s"
| "crule_cb E rec C_success parts a s = until_loop (\<lambda>r. \<not> truthy r) rec a parts VUndef s"
| "crule_cb E rec C_nullish parts a s = until_loop (\<lambda>r. \<not> is_nullish r) rec a parts VUndef s"
| "crule_cb E rec C_context parts a s = context_loop rec a parts VUndef s"
| "crule_cb E rec C_out parts a s =
     (case parts of
        [] \<Rightarrow> Inl Unsupported
      | p0 # ps \<Rightarrow> (case rec (ExecCommand p0 True a) s of
                     Inl e \<Rightarrow> Inl e | Inr (r, s') \<Rightarrow> out_loop rec a ps (aw a r) s'))"
| "crule_cb E rec C_param parts a s =
     (if list_ex (\<lambda>p. case p of Leaf t \<Rightarrow> False | Node r ps \<Rightarrow> True) parts then Inl Unsupported
      else (case convertArray rec (map part_value parts) False a s of
              Inl e \<Rightarrow> Inl e | Inr (args, s') \<Rightarrow> param_checkValue E rec args s'))"

definition execCommand :: "env \<Rightarrow> recf \<Rightarrow> subcommand \<Rightarrow> bool \<Rightarrow> bool \<Rightarrow> state \<Rightarrow> val result" where
  "execCommand E rec sub x a s =
     (case sub of
        Leaf t \<Rightarrow> rec (Convert (VStr t) x a) s
      | Node r parts \<Rightarrow> map_val (aw a) (crule_cb E rec r parts a s))"

definition exec :: "env \<Rightarrow> recf \<Rightarrow> string \<Rightarrow> bool \<Rightarrow> bool \<Rightarrow> state \<Rightarrow> val result" where
  "exec E rec command x a s =
     (case parseCommand E COMMANDS command s of
        Inl e \<Rightarrow> Inl e | Inr (sub, s') \<Rightarrow> rec (ExecCommand sub x a) s')"

definition parse_in :: "recf \<Rightarrow> string \<Rightarrow> val \<Rightarrow> bool \<Rightarrow> state \<Rightarrow> val result" where
  \<comment> \<open>\<^verbatim>\<open>parse(command, scope, context, async)\<close> on the scope of the state\<close>
  "parse_in rec command context a s = rec (Exec command True a) (set_scope ''context'' context s)"

definition tval :: "bool option \<Rightarrow> val" where
  \<comment> \<open>the \<^verbatim>\<open>async\<close> argument of \<^verbatim>\<open>parseTemplate\<close> as a value: \<^verbatim>\<open>null\<close> when it is not given\<close>
  "tval asy = (case asy of None \<Rightarrow> VNull | Some b \<Rightarrow> VBool b)"

definition line_checkValue :: "val \<Rightarrow> string \<Rightarrow> err + val" where
  \<comment> \<open>ext-js, \<^verbatim>\<open>checkValue\<close> of the rules \<^verbatim>\<open>command\<close> and \<^verbatim>\<open>template\<close>\<close>
  "line_checkValue v end =
     (case v of
        VNum r \<Rightarrow> (case show_num r of Some t \<Rightarrow> Inr (VStr (t @ end)) | None \<Rightarrow> Inl Unsupported)
      | VStr t \<Rightarrow> Inr (VStr (t @ end))
      | _ \<Rightarrow> Inr (VStr []))"

definition const_variable :: "env \<Rightarrow> string \<Rightarrow> string" where
  \<comment> \<open>\<^verbatim>\<open>name.at(0) === '_' ? name.toLowerCase() : convertToCamelCase(name, '_')\<close>\<close>
  "const_variable E name = (if startsWith name ''_'' then toLowerCase name else convertToCamelCase E name ''_'')"

definition as_promise :: "bool option \<Rightarrow> val \<Rightarrow> val" where
  \<comment> \<open>the result of a closure that is an \<^verbatim>\<open>async\<close> function when the template is asynchronous\<close>
  "as_promise asy v = (if asy = Some True then VPromise [] (await_val v) else v)"

fun call_fn :: "env \<Rightarrow> recf \<Rightarrow> fn \<Rightarrow> val list \<Rightarrow> state \<Rightarrow> val result" where
  \<comment> \<open>\<^verbatim>\<open>fn(...args)\<close>: a host function, or one of the closures that the template rules store\<close>
  "call_fn E rec (Native n) args s = lift (natives E n args) s"
| "call_fn E rec (LineDirective command end asy) args s =
     (case parse_in rec command (tval asy) False s of
        Inl e \<Rightarrow> Inl e
      | Inr (res, s') \<Rightarrow>
          map_val (as_promise asy) (lift (line_checkValue (aw (asy = Some True) res) end) s'))"
| "call_fn E rec (BlockDirective command end offset block asy) args s =
     (case parse_in rec command (tval asy) False
             (set_scope ''template'' (VStr block) (set_scope ''offset'' (VNum (of_nat offset)) s)) of
        Inl e \<Rightarrow> Inl e
      | Inr (res, s') \<Rightarrow>
          map_val (as_promise asy)
            (lift (line_checkValue (aw (asy = Some True) res) end)
               (set_scope ''template'' (lookup (scope_of s) ''template'')
                  (set_scope ''offset'' (lookup (scope_of s) ''offset'') s'))))"
| "call_fn E rec (InlineDirective command asy) args s = parse_in rec command (tval asy) False s"
| "call_fn E rec (VarConst name asy) args s =
     parse_in rec (getVariableName (const_variable E name)) (tval asy) False s"
| "call_fn E rec (RunConst name asy) args s =
     parse_in rec (getRunnableVariableName (const_variable E name)) (tval asy) False s"

definition step :: "env \<Rightarrow> recf \<Rightarrow> call \<Rightarrow> state \<Rightarrow> val result" where
  "step E rec c s =
     (case c of
        Exec command x a \<Rightarrow> exec E rec command x a s
      | ExecCommand sub x a \<Rightarrow> execCommand E rec sub x a s
      | Convert v x a \<Rightarrow> convert_ladder E rec CONVERT v x a s
      | CallFn f args \<Rightarrow> call_fn E rec f args s)"

primrec ev :: "env \<Rightarrow> nat \<Rightarrow> call \<Rightarrow> state \<Rightarrow> val result" where
  "ev E 0 = (\<lambda>c s. Inl OutOfFuel)"
| "ev E (Suc n) = step E (ev E n)"

definition parse :: "env \<Rightarrow> nat \<Rightarrow> string \<Rightarrow> store \<Rightarrow> store \<Rightarrow> val \<Rightarrow> bool \<Rightarrow> val result" where
  \<comment> \<open>\<^verbatim>\<open>parse(command, scope, context, async)\<close> with the global store \<open>G\<close> and nesting bound \<open>n\<close>; in
      asynchronous mode the result is what the returned promise is fulfilled with\<close>
  "parse E n command S G context a =
     parse_in (ev E n) command context a \<lparr>scope_of = S, vars_of = G\<rparr>"

definition parse_value :: "env \<Rightarrow> nat \<Rightarrow> string \<Rightarrow> store \<Rightarrow> store \<Rightarrow> val \<Rightarrow> bool \<Rightarrow> err + val" where
  \<comment> \<open>the value that \<^verbatim>\<open>parse\<close> returns\<close>
  "parse_value E n command S G context a = map_sum id fst (parse E n command S G context a)"

section \<open>Templates (parseTemplate, rules of category template, ext-js)\<close>






fun js_to_string :: "val \<Rightarrow> string option" where
  \<comment> \<open>the text that \<^verbatim>\<open>String.prototype.replace\<close> inserts for the result of a replacer function\<close>
  "js_to_string (VStr t) = Some t"
| "js_to_string (VNum r) = show_num r"
| "js_to_string VUndef = Some ''undefined''"
| "js_to_string VNull = Some ''null''"
| "js_to_string (VBool b) = Some (if b then ''true'' else ''false'')"
| "js_to_string v = None"





section \<open>The configuration of the tests\<close>

text \<open>
  The engine instance that the repository's tests and its README configure: the commands
  \<^verbatim>\<open>concat\<close>, \<^verbatim>\<open>min\<close> and \<^verbatim>\<open>async\<close> with their descriptors, and stand-ins for the three helpers
  of functions.ts.
\<close>

definition hex_digit :: "nat \<Rightarrow> char" where
  "hex_digit n = ''0123456789abcdef'' ! (n mod 16)"

definition md5_model :: "string \<Rightarrow> string" where
  \<comment> \<open>Modelled from the spec: \<^verbatim>\<open>md5\<close> of functions.ts, which is not part of the sources. The spec
      only asks for an opaque hash that does not collide with the names a user chooses; the
      stand-in writes the character codes in lower-case hexadecimal digits, the alphabet of an
      md5 digest, and has no collisions.\<close>
  "md5_model t = concat (map (\<lambda>c. [hex_digit (of_char c div 16), hex_digit (of_char c)]) t)"

fun stripSlashes_model :: "string \<Rightarrow> string" where
  \<comment> \<open>Modelled from the spec: \<^verbatim>\<open>stripSlashes\<close> of functions.ts, which is not part of the sources;
      the spec says that the escapes are stripped: a backslash is dropped and the character
      after it is kept.\<close>
  "stripSlashes_model [] = []"
| "stripSlashes_model [c] = (if c = CHR 0x5C then [] else [c])"
| "stripSlashes_model (c # d # cs) =
     (if c = CHR 0x5C then d # stripSlashes_model cs else c # stripSlashes_model (d # cs))"

definition capitalize :: "string \<Rightarrow> string" where
  "capitalize t = (case toLowerCase t of [] \<Rightarrow> [] | c # cs \<Rightarrow> upper_char c # cs)"

definition convertToCamelCase_model :: "string \<Rightarrow> string \<Rightarrow> string" where
  \<comment> \<open>Modelled from the spec: \<^verbatim>\<open>convertToCamelCase\<close> of functions.ts, which is not part of the
      sources; the spec has \<^verbatim>\<open>--as-array\<close> name \<^verbatim>\<open>asArray\<close> and \<^verbatim>\<open>TEST_VAR\<close> name
      \<^verbatim>\<open>testVar\<close>: the pieces between the delimiters in lower case, each but the first
      with a capital.\<close>
  "convertToCamelCase_model t d =
     (case split_js t d of [] \<Rightarrow> [] | x # xs \<Rightarrow> toLowerCase x @ concat (map capitalize xs))"

fun join_vals :: "string \<Rightarrow> val list \<Rightarrow> string option" where
  \<comment> \<open>\<^verbatim>\<open>args.join(delim)\<close>: null and undefined join as the empty text\<close>
  "join_vals d [] = Some []"
| "join_vals d (v # vs) =
     (case (if is_nullish v then Some [] else js_to_string v, join_vals d vs) of
        (Some t, Some r) \<Rightarrow> Some (if vs = [] then t else t @ d @ r)
      | _ \<Rightarrow> None)"

definition concat_callback :: "val list \<Rightarrow> err + val" where
  \<comment> \<open>\<^verbatim>\<open>(scope, mode, delim = " ", ...args) => args.join(delim)\<close>\<close>
  "concat_callback xs =
     (case js_to_string (if get_idx xs 2 = VUndef then VStr '' '' else get_idx xs 2) of
        None \<Rightarrow> Inl Unsupported
      | Some d \<Rightarrow> (case join_vals d (drop 3 xs) of None \<Rightarrow> Inl Unsupported | Some t \<Rightarrow> Inr (VStr t)))"

definition concat_command :: command where
  "concat_command =
     \<lparr>cmd_callback = concat_callback,
      cmd_flags = [(''a'', VNum 1), (''b'', VNum 2), (''c'', VNum 4), (''D'', VNum 8)],
      cmd_args = [\<lparr>arg_name = ''scope'', arg_required = True, arg_variadic = False, arg_default = VUndef\<rparr>,
                  \<lparr>arg_name = ''mode'', arg_required = True, arg_variadic = False, arg_default = VNum 2\<rparr>,
                  \<lparr>arg_name = ''delim'', arg_required = False, arg_variadic = False, arg_default = VStr '' ''\<rparr>,
                  \<lparr>arg_name = ''args'', arg_required = False, arg_variadic = True, arg_default = VUndef\<rparr>]\<rparr>"

definition min_callback :: "val list \<Rightarrow> err + val" where
  \<comment> \<open>\<^verbatim>\<open>Math.min\<close> on a list of numbers that is not empty\<close>
  "min_callback xs =
     (if xs \<noteq> [] \<and> list_all isNumber xs
      then Inr (VNum (Min (set (map (\<lambda>v. case v of VNum r \<Rightarrow> r | _ \<Rightarrow> 0) xs))))
      else Inl Unsupported)"

definition min_command :: command where
  "min_command =
     \<lparr>cmd_callback = min_callback, cmd_flags = [],
      cmd_args = [\<lparr>arg_name = ''values'', arg_required = True, arg_variadic = True, arg_default = VUndef\<rparr>]\<rparr>"

definition async_callback :: "val list \<Rightarrow> err + val" where
  \<comment> \<open>\<^verbatim>\<open>async (context, asArray = false) => asArray ? [context] : context\<close>\<close>
  "async_callback xs =
     Inr (VPromise [] (if truthy (get_idx xs 1) then VArr [get_idx xs 0] else await_val (get_idx xs 0)))"

definition async_command :: command where
  "async_command =
     \<lparr>cmd_callback = async_callback, cmd_flags = [],
      cmd_args = [\<lparr>arg_name = ''context'', arg_required = False, arg_variadic = False, arg_default = VUndef\<rparr>,
                  \<lparr>arg_name = ''asArray'', arg_required = False, arg_variadic = False, arg_default = VBool False\<rparr>]\<rparr>"

definition test_env :: env where
  "test_env =
     \<lparr>md5 = md5_model, convertToCamelCase = convertToCamelCase_model, stripSlashes = stripSlashes_model,
      commands = [''concat'' \<mapsto> concat_command, ''min'' \<mapsto> min_command, ''async'' \<mapsto> async_command],
      natives = (\<lambda>n xs. Inl Unsupported)\<rparr>"

definition no_vars :: store where
  \<comment> \<open>a store without bindings: the scope \<^verbatim>\<open>{}\<close>\<close>
  "no_vars = Map.empty"

section \<open>Predicates of the statements\<close>

definition name_chars :: "string \<Rightarrow> bool" where
  \<comment> \<open>a text that the convert rules read as a name: word characters, not a digit first, and
      none of the literals\<close>
  "name_chars x = (x \<noteq> [] \<and> list_all is_word x \<and> \<not> is_digit (hd x)
     \<and> toLowerCase x \<notin> {''null'', ''undefined'', ''true'', ''false''})"

definition plain_name :: "env \<Rightarrow> string \<Rightarrow> bool" where
  \<comment> \<open>a name that is not the name of a command\<close>
  "plain_name E x = (name_chars x \<and> commands E x = None)"

definition read_var :: "state \<Rightarrow> string \<Rightarrow> val" where
  \<comment> \<open>\<^verbatim>\<open>scope[x] ?? VARS[x] ?? undefined\<close>\<close>
  "read_var s x = nullish_or (nullish_or (lookup (scope_of s) x) (lookup (vars_of s) x)) VUndef"

definition safe_char :: "char \<Rightarrow> bool" where
  \<comment> \<open>the characters of a reference \<^verbatim>\<open>$name\<close>\<close>
  "safe_char c = (is_word c \<or> c = CHR ''$'')"

definition is_plain :: "val \<Rightarrow> bool" where
  \<comment> \<open>a token that is neither \<^verbatim>\<open>--name\<close> nor \<^verbatim>\<open>-xyz\<close>\<close>
  "is_plain tok = (\<not> is_long tok \<and> \<not> is_short tok)"

definition empty_state :: state where
  \<comment> \<open>the state of a call with the scope \<^verbatim>\<open>{}\<close> when the global store is empty\<close>
  "empty_state = \<lparr>scope_of = no_vars, vars_of = no_vars\<rparr>"

section \<open>Facts about values and the state\<close>

lemma await_val_idem: "await_val (await_val v) = await_val v"
  by (induction v rule: await_val.induct) simp_all

lemma aw_idem: "aw a (aw a v) = aw a v"
  by (simp add: aw_def await_val_idem)

lemma aw_not_promise: "\<not> isPromise v \<Longrightarrow> aw a v = v"
  by (cases v) (simp_all add: aw_def)

lemma lookup_set_scope:
  "lookup (scope_of (set_scope k v s)) k' = (if k' = k then v else lookup (scope_of s) k')"
  by (simp add: set_scope_def lookup_def)

lemma set_scope_twice: "set_scope k v (set_scope k w s) = set_scope k v s"
  by (simp add: set_scope_def)

lemma vars_set_scope: "vars_of (set_scope k v s) = vars_of s"
  by (simp add: set_scope_def)

lemma ev_node:
  "ev E (Suc n) (ExecCommand (Node r parts) x a) s = map_val (aw a) (crule_cb E (ev E n) r parts a s)"
  by (simp add: step_def execCommand_def)

lemma ev_exec: "ev E (Suc n) (Exec t x a) s = exec E (ev E n) t x a s"
  by (simp add: step_def)

section \<open>Names and references\<close>

text \<open>
  A name of word characters matches none of the patterns of the convert rules, so it
  converts to itself, and a reference \<^verbatim>\<open>$name\<close> converts to the value that \<^verbatim>\<open>getVar\<close> reads.
\<close>

lemma word_not_special:
  "is_word c \<Longrightarrow> c \<notin> set ''=!<>-+*/%$.,:;|&?()[]{} ''"
  by (auto simp: is_word_def is_digit_def is_upper_def is_lower_def)

lemma word_not_special2:
  assumes "is_word c"
  shows "c \<noteq> CHR ''=''" "c \<noteq> CHR ''!''" "c \<noteq> CHR ''<''" "c \<noteq> CHR ''>''" "c \<noteq> CHR ''-''"
    "c \<noteq> CHR ''+''" "c \<noteq> CHR ''*''" "c \<noteq> CHR ''/''" "c \<noteq> CHR ''%''" "c \<noteq> CHR ''$''" "c \<noteq> CHR ''.''"
  using word_not_special[OF assms] by auto

lemma match_at_HAS_MATH: "is_word c \<Longrightarrow> match_at HAS_MATH b (c # cs) = None"
  by (simp add: match_at_def HAS_MATH_def rx_def word_not_special2)

lemma match_at_HAS_MATH_end: "match_at HAS_MATH b [] = None"
  by (simp add: match_at_def HAS_MATH_def rx_def)

lemma search_HAS_MATH: "list_all is_word x \<Longrightarrow> search_from HAS_MATH b x = None"
  by (induction x arbitrary: b) (simp_all add: match_at_HAS_MATH match_at_HAS_MATH_end)

lemma match_at_HAS_MATH_dollar: "match_at HAS_MATH b (CHR ''$'' # cs) = None"
  by (simp add: match_at_def HAS_MATH_def rx_def)

lemma search_HAS_MATH_var: "list_all is_word x \<Longrightarrow> search_from HAS_MATH [] (CHR ''$'' # x) = None"
  by (simp add: search_HAS_MATH match_at_HAS_MATH_dollar)

lemma match_at_NUMBER_later: "b \<noteq> [] \<Longrightarrow> match_at NUMBER b a = None"
  by (cases b) (simp_all add: match_at_def NUMBER_def rx_def)

lemma search_NUMBER_later: "b \<noteq> [] \<Longrightarrow> search_from NUMBER b a = None"
  by (induction a arbitrary: b) (simp_all add: match_at_NUMBER_later)

lemma match_at_NUMBER_first: "\<not> is_digit c \<Longrightarrow> c \<noteq> CHR ''-'' \<Longrightarrow> match_at NUMBER [] (c # cs) = None"
  by (simp add: match_at_def NUMBER_def rx_def plus_re_def opt_re_def)

lemma search_NUMBER: "\<not> is_digit c \<Longrightarrow> c \<noteq> CHR ''-'' \<Longrightarrow> search_from NUMBER [] (c # cs) = None"
  by (simp add: search_NUMBER_later match_at_NUMBER_first)

lemma match_at_FLOAT_later: "b \<noteq> [] \<Longrightarrow> match_at FLOAT b a = None"
  by (cases b) (simp_all add: match_at_def FLOAT_def rx_def)

lemma search_FLOAT_later: "b \<noteq> [] \<Longrightarrow> search_from FLOAT b a = None"
  by (induction a arbitrary: b) (simp_all add: match_at_FLOAT_later)

lemma match_at_FLOAT_first: "\<not> is_digit c \<Longrightarrow> c \<noteq> CHR ''-'' \<Longrightarrow> match_at FLOAT [] (c # cs) = None"
  by (simp add: match_at_def FLOAT_def rx_def plus_re_def opt_re_def)

lemma search_FLOAT: "\<not> is_digit c \<Longrightarrow> c \<noteq> CHR ''-'' \<Longrightarrow> search_from FLOAT [] (c # cs) = None"
  by (simp add: search_FLOAT_later match_at_FLOAT_first)

lemma IS_VARIABLE_strip: "c \<noteq> CHR ''$'' \<Longrightarrow> replace_str (CHR ''$'' # c # cs) IS_VARIABLE [] = c # cs"
  by (simp add: replace_str_def replace_fn_def match_at_def IS_VARIABLE_def rx_def plus_re_def)

lemma split_no_sep: "c \<notin> set x \<Longrightarrow> split_from [c] acc x = [rev acc @ x]"
  by (induction x arbitrary: acc) auto

lemma lower_dollar:
  "toLowerCase (CHR ''$'' # x) \<noteq> ''null''" "toLowerCase (CHR ''$'' # x) \<noteq> ''undefined''"
  "toLowerCase (CHR ''$'' # x) \<noteq> ''true''" "toLowerCase (CHR ''$'' # x) \<noteq> ''false''"
  by (simp_all add: toLowerCase_def lower_char_def)

lemma test_NUMBER: "\<not> is_digit c \<Longrightarrow> c \<noteq> CHR ''-'' \<Longrightarrow> \<not> re_test NUMBER (c # cs)"
  by (simp add: re_test_def search_NUMBER del: search_from.simps)

lemma test_FLOAT: "\<not> is_digit c \<Longrightarrow> c \<noteq> CHR ''-'' \<Longrightarrow> \<not> re_test FLOAT (c # cs)"
  by (simp add: re_test_def search_FLOAT del: search_from.simps)

lemma test_HAS_MATH: "list_all is_word x \<Longrightarrow> \<not> re_test HAS_MATH x"
  by (simp add: re_test_def search_HAS_MATH del: search_from.simps)

lemma test_HAS_MATH_var: "list_all is_word x \<Longrightarrow> \<not> re_test HAS_MATH (CHR ''$'' # x)"
  by (simp add: re_test_def search_HAS_MATH_var del: search_from.simps)

lemma name_chars_cons:
  "name_chars x \<Longrightarrow> \<exists>c cs. x = c # cs \<and> is_word c \<and> \<not> is_digit c \<and> list_all is_word cs"
  by (cases x) (auto simp: name_chars_def)

lemma convert_name:
  assumes "name_chars x" and "b \<longrightarrow> commands E x = None"
  shows "convert_ladder E rec CONVERT (VStr x) b a s = Inr (VStr x, s)"
proof -
  from name_chars_cons[OF assms(1)] obtain c cs where x: "x = c # cs" and c: "is_word c" "\<not> is_digit c"
    and cs: "list_all is_word cs" by blast
  have lit: "toLowerCase x \<noteq> ''null''" "toLowerCase x \<noteq> ''undefined''" "toLowerCase x \<noteq> ''true''"
    "toLowerCase x \<noteq> ''false''"
    using assms(1) by (auto simp: name_chars_def)
  have num: "\<not> re_test NUMBER x" "\<not> re_test FLOAT x"
    using c unfolding x by (simp_all add: test_NUMBER test_FLOAT word_not_special2)
  have math: "\<not> re_test HAS_MATH x"
    using c cs unfolding x by (simp add: test_HAS_MATH)
  have st: "\<not> startsWith x ''-''" "\<not> isVariable x"
    using c by (simp_all add: x isVariable_def word_not_special2)
  have cmd: "(isCommandCallable E (VStr x) \<and> b) = False"
    using assms(2) by (auto simp: isCommandCallable_def)
  show ?thesis
    using lit num math st cmd
    by (simp add: CONVERT_def on_string_def isEmptyString_def x[symmetric])
       (auto simp: x)
qed

lemma ev_convert_name:
  "name_chars x \<Longrightarrow> ev E (Suc n) (Convert (VStr x) False a) s = Inr (VStr x, s)"
  by (simp add: step_def convert_name)

lemma ev_name_leaf:
  assumes "plain_name E x"
  shows "ev E (Suc (Suc n)) (ExecCommand (Leaf x) b a) s = Inr (VStr x, s)"
  using assms by (simp add: step_def execCommand_def convert_name plain_name_def)

lemma getVar_single: "getVar (VArr [VStr x]) S G VUndef =
   Inr (let v = nullish_or (nullish_or (lookup S x) (lookup G x)) VUndef
        in if isPromise v then then_js (\<lambda>r. nullish_or r VUndef) v else v)"
  by (simp add: Let_def nullish_or_def is_nullish_def)

lemma convert_variable:
  assumes "name_chars x" and "rec (Convert (VStr x) False a) s = Inr (VStr x, s)"
    and "\<not> isPromise (read_var s x)"
  shows "convert_ladder E rec CONVERT (VStr (CHR ''$'' # x)) b a s = Inr (read_var s x, s)"
proof -
  from name_chars_cons[OF assms(1)] obtain c cs where x: "x = c # cs" and c: "is_word c" "\<not> is_digit c"
    and cs: "list_all is_word cs" by blast
  have xs: "list_all is_word x" using c cs x by simp
  have math: "\<not> re_test HAS_MATH (CHR ''$'' # x)"
    using xs by (simp add: test_HAS_MATH_var)
  have num: "\<not> re_test NUMBER (CHR ''$'' # x)" "\<not> re_test FLOAT (CHR ''$'' # x)"
    by (simp_all add: test_NUMBER test_FLOAT is_digit_def)
  have strip: "replace_str (CHR ''$'' # x) IS_VARIABLE [] = x"
    using c by (simp add: x IS_VARIABLE_strip word_not_special2)
  have "CHR ''.'' \<notin> set x" using xs word_not_special2(11) by (auto simp: list_all_iff)
  then have split: "split_js x ''.'' = [x]"
    by (simp add: split_js_def split_no_sep)
  have run: "\<not> isRunnableVariable (CHR ''$'' # x)"
    using c by (simp add: isRunnableVariable_def x word_not_special2)
  have aw: "aw a (read_var s x) = read_var s x"
    using assms(3) by (cases "read_var s x") (simp_all add: aw_def)
  have gv: "getVar (VArr [VStr x]) (scope_of s) (vars_of s) VUndef = Inr (read_var s x)"
    using assms(3) by (simp add: getVar_single read_var_def Let_def del: getVar.simps)
  have ca: "convertArray rec [VStr x] False a s = Inr ([VStr x], s)"
    using assms(2) by (simp add: convertArray_def aw_def)
  show ?thesis
    using math num strip split run aw gv ca
    by (simp add: CONVERT_def on_string_def isEmptyString_def lower_dollar isVariable_def map_val_def)
qed

lemma ev_variable_leaf:
  assumes "name_chars x" and "\<not> isPromise (read_var s x)"
  shows "ev E (Suc (Suc (Suc n))) (ExecCommand (Leaf (CHR ''$'' # x)) b a) s = Inr (read_var s x, s)"
proof -
  have "ev E (Suc n) (Convert (VStr x) False a) s = Inr (VStr x, s)"
    by (rule ev_convert_name[OF assms(1)])
  from convert_variable[where rec="ev E (Suc n)", OF assms(1) this assms(2)]
  have "ev E (Suc (Suc n)) (Convert (VStr (CHR ''$'' # x)) b a) s = Inr (read_var s x, s)"
    by (simp add: step_def)
  then show ?thesis by (simp add: step_def execCommand_def)
qed

lemma number_facts:
  "re_test NUMBER ''5''" "toLowerCase ''5'' = ''5''" "int_of_string ''5'' = 5"
  "re_test NUMBER ''4''" "toLowerCase ''4'' = ''4''" "int_of_string ''4'' = 4"
  by code_simp+

lemma number_leaf:
  "ev E (Suc (Suc n)) (ExecCommand (Leaf ''5'') x a) s = Inr (VNum 5, s)"
  "ev E (Suc (Suc n)) (ExecCommand (Leaf ''4'') x a) s = Inr (VNum 4, s)"
  by (simp_all add: step_def execCommand_def CONVERT_def on_string_def number_facts isEmptyString_def
      map_val_def aw_def)

section \<open>The loops of the command rules\<close>

lemma end_loop_snoc:
  "end_loop rec a (parts @ [p]) res s =
     (case end_loop rec a parts res s of
        Inl e \<Rightarrow> Inl e
      | Inr (r, s') \<Rightarrow>
          if is_empty_part p then Inr (VUndef, s')
          else (case rec (ExecCommand p True a) s' of
                  Inl e \<Rightarrow> Inl e | Inr (v, s'') \<Rightarrow> Inr (aw a v, s'')))"
  by (induction parts arbitrary: res s) (auto split: sum.splits)

lemma context_loop_restores:
  "context_loop rec a parts res s = Inr (v, s') \<Longrightarrow>
     lookup (scope_of s') ''context'' = lookup (scope_of s) ''context''"
proof (induction parts arbitrary: res s)
  case Nil
  then show ?case by simp
next
  case (Cons p ps)
  then show ?case
    by (auto split: sum.splits if_splits simp: lookup_set_scope)
qed

lemma name_chars_context: "name_chars ''context''"
  by (simp add: name_chars_def is_word_def is_lower_def is_digit_def is_upper_def toLowerCase_def lower_char_def)

lemma pipe_to_context:
  assumes x: "ev E (Suc (Suc (Suc n))) (ExecCommand x True a) s = Inr (r, s1)"
    and r: "\<not> is_nullish (aw a r)" "\<not> isPromise (aw a r)"
  shows "ev E (Suc (Suc (Suc (Suc n)))) (ExecCommand (Node C_context [x, Leaf ''$context'']) True a) s
         = Inr (aw a r, set_scope ''context'' (lookup (scope_of s) ''context'') s1)"
proof -
  let ?prev = "lookup (scope_of s) ''context''"
  let ?s2 = "set_scope ''context'' (aw a r) (set_scope ''context'' ?prev s1)"
  have rd: "read_var ?s2 ''context'' = aw a r"
    using r(1) by (simp add: read_var_def lookup_set_scope nullish_or_def)
  have leaf: "ev E (Suc (Suc (Suc n))) (ExecCommand (Leaf ''$context'') True a) ?s2 = Inr (aw a r, ?s2)"
    using ev_variable_leaf[OF name_chars_context, where s="?s2" and n=n and b=True and a=a and E=E] r(2) rd by simp
  have ne: "aw a r \<noteq> VUndef" using r(1) by (auto simp: is_nullish_def)
  show ?thesis
    unfolding ev_node using x leaf ne
    by (simp add: map_val_def aw_idem lookup_set_scope set_scope_twice del: ev.simps)
qed

lemma pipe_restores:
  assumes "ev E (Suc n) (ExecCommand (Node C_context parts) x a) s = Inr (v, s')"
  shows "lookup (scope_of s') ''context'' = lookup (scope_of s) ''context''"
proof -
  from assms obtain w where "context_loop (ev E n) a parts VUndef s = Inr (w, s')"
    unfolding ev_node by (auto simp: map_val_def split: sum.splits)
  then show ?thesis by (rule context_loop_restores)
qed

lemma out_assigns:
  assumes v: "ev E (Suc (Suc n)) (ExecCommand v True a) s = Inr (r, s1)"
    and nm: "plain_name E x"
  shows "ev E (Suc (Suc (Suc n))) (ExecCommand (Node C_out [v, Leaf x]) True a) s
         = Inr (aw a r, s1\<lparr>vars_of := (vars_of s1)(x \<mapsto> aw a r)\<rparr>)"
  unfolding ev_node using v ev_name_leaf[OF nm, of n True a s1]
  by (simp add: map_val_def aw_idem setVar_def aw_not_promise del: ev.simps)



section \<open>The normaliser on a reference\<close>

text \<open>
  None of the patterns of the normaliser matches in a text of word characters and dollar
  signs, and such a text contains none of the keys of the command rules, so that
  \<^verbatim>\<open>parseCommand\<close> returns it as a leaf.
\<close>

lemma safe_not_special:
  assumes "safe_char c"
  shows "c \<noteq> CHR ''=''" "c \<noteq> CHR ''!''" "c \<noteq> CHR ''<''" "c \<noteq> CHR ''>''" "c \<noteq> CHR ''-''"
    "c \<noteq> CHR ''+''" "c \<noteq> CHR ''*''" "c \<noteq> CHR ''/''" "c \<noteq> CHR ''%''" "c \<noteq> CHR ''.''"
    "c \<noteq> CHR '',''" "c \<noteq> CHR '':''" "c \<noteq> CHR '';''" "c \<noteq> CHR ''|''" "c \<noteq> CHR ''&''"
    "c \<noteq> CHR ''?''" "c \<noteq> CHR ''(''" "c \<noteq> CHR '')''" "c \<noteq> CHR ''[''" "c \<noteq> CHR '']''"
    "c \<noteq> CHR ''{''" "c \<noteq> CHR ''}''" "c \<noteq> CHR '' ''" "c \<noteq> CHR 0x22" "c \<noteq> CHR 0x27" "c \<noteq> CHR 0x60"
    "\<not> is_space c"
  using assms by (auto simp: safe_char_def is_word_def is_digit_def is_upper_def is_lower_def is_space_def)

lemma no_match_search:
  assumes "\<And>b c cs. safe_char c \<Longrightarrow> match_at r b (c # cs) = None" and "\<And>b. match_at r b [] = None"
    and "list_all safe_char t"
  shows "search_from r b t = None"
  using assms(3) by (induction t arbitrary: b) (simp_all add: assms(1,2))

lemma no_match_replace:
  assumes "\<And>b c cs. safe_char c \<Longrightarrow> match_at r b (c # cs) = None" and "\<And>b. match_at r b [] = None"
    and "list_all safe_char t"
  shows "replace_fn t r cb s = Inr (t, s)"
  using no_match_search[OF assms, of "[]"] by (simp add: replace_fn_def del: search_from.simps)

lemma lit_fail:
  "c \<noteq> l \<Longrightarrow> rmatch ml n (Lit (l # ls)) (b, c # cs, k) = []"
  "rmatch ml n (Lit (l # ls)) (b, [], k) = []"
  by simp_all

lemma sat_fail:
  "\<not> p c \<Longrightarrow> rmatch ml n (Sat p) (b, c # cs, k) = []"
  "rmatch ml n (Sat p) (b, [], k) = []"
  by simp_all

lemma seq_fail: "rmatch ml n r z = [] \<Longrightarrow> rmatch ml n (Seq r r') z = []"
  by simp

lemma seq_skip: "rmatch ml n r z = [z] \<Longrightarrow> rmatch ml n r' z = [] \<Longrightarrow> rmatch ml n (Seq r r') z = []"
  by simp

lemma alt_fail: "rmatch ml n r z = [] \<Longrightarrow> rmatch ml n r' z = [] \<Longrightarrow> rmatch ml n (Alt r r') z = []"
  by simp

lemma grp_fail: "rmatch ml n r z = [] \<Longrightarrow> rmatch ml n (Grp i r) z = []"
  by (cases z) simp

lemma seq_guard:
  "rmatch ml n r z = [] \<Longrightarrow> rmatch ml n (Seq (Behind g) r) z = []"
  "rmatch ml n r z = [] \<Longrightarrow> rmatch ml n (Seq (NBehind g) r) z = []"
  "rmatch ml n r z = [] \<Longrightarrow> rmatch ml n (Seq Bol r) z = []"
  by (cases z; simp)+

lemma star_ws_safe: "\<not> is_space c \<Longrightarrow> rmatch ml (Suc n) (Star g ws) (b, c # cs, k) = [(b, c # cs, k)]"
  by (simp add: ws_def)

lemma star_ws_end: "rmatch ml (Suc n) (Star g ws) (b, [], k) = [(b, [], k)]"
  by (simp add: ws_def)

lemmas fails = lit_fail sat_fail seq_fail seq_skip alt_fail grp_fail seq_guard star_ws_safe star_ws_end

lemma nm_BRACKETS: "safe_char c \<Longrightarrow> match_at BRACKETS b (c # cs) = None" "match_at BRACKETS b [] = None"
  by (simp_all add: match_at_def BRACKETS_def rx_def fails safe_not_special del: rmatch.simps)

lemma nm_BORDERS0:
  "safe_char c \<Longrightarrow> match_at (rx (Seq Bol (plus_re True ws)) 0) b (c # cs) = None"
  "match_at (rx (Seq Bol (plus_re True ws)) 0) b [] = None"
  by (simp_all add: match_at_def rx_def ws_def plus_re_def fails safe_not_special del: rmatch.simps)

lemma nm_BORDERS1:
  "safe_char c \<Longrightarrow> match_at (rx (Seq (plus_re True ws) Eol) 0) b (c # cs) = None"
  "match_at (rx (Seq (plus_re True ws) Eol) 0) b [] = None"
  by (simp_all add: match_at_def rx_def ws_def plus_re_def fails safe_not_special del: rmatch.simps)

lemma nm_SPACES: "safe_char c \<Longrightarrow> match_at TRIM_SPACES b (c # cs) = None" "match_at TRIM_SPACES b [] = None"
  by (simp_all add: match_at_def TRIM_SPACES_def rx_def ws_def plus_re_def fails safe_not_special
      del: rmatch.simps)

lemma nm_MATH: "safe_char c \<Longrightarrow> match_at TRIM_MATH b (c # cs) = None" "match_at TRIM_MATH b [] = None"
  by (simp_all add: match_at_def TRIM_MATH_def rx_def fails safe_not_special del: rmatch.simps)

lemma nm_TBRACES0:
  "safe_char c \<Longrightarrow> match_at (rx (Seq (Grp 1 (cls ''[({'')) (Star True ws)) 1) b (c # cs) = None"
  "match_at (rx (Seq (Grp 1 (cls ''[({'')) (Star True ws)) 1) b [] = None"
  by (simp_all add: match_at_def rx_def cls_def fails safe_not_special del: rmatch.simps)

lemma nm_TBRACES1:
  "safe_char c \<Longrightarrow> match_at (rx (Seq (Star True ws) (Grp 1 (cls '')}]''))) 1) b (c # cs) = None"
  "match_at (rx (Seq (Star True ws) (Grp 1 (cls '')}]''))) 1) b [] = None"
  by (simp_all add: match_at_def rx_def cls_def fails safe_not_special del: rmatch.simps)

lemma nm_MINUS: "safe_char c \<Longrightarrow> match_at MINUS b (c # cs) = None" "match_at MINUS b [] = None"
  by (simp_all add: match_at_def MINUS_def rx_def fails safe_not_special del: rmatch.simps)

lemma nm_BRACES0:
  "safe_char c \<Longrightarrow> match_at (rx (seqs [Lit ''('', Grp 1 (Star False (ncls ''()'')), Lit '')'']) 1) b (c # cs) = None"
  "match_at (rx (seqs [Lit ''('', Grp 1 (Star False (ncls ''()'')), Lit '')'']) 1) b [] = None"
  by (simp_all add: match_at_def rx_def fails safe_not_special del: rmatch.simps)

lemma nm_BRACES1:
  "safe_char c \<Longrightarrow> match_at (rx (seqs [Lit ''['', Grp 1 (Star False (ncls ''[]'')), Lit '']'']) 1) b (c # cs) = None"
  "match_at (rx (seqs [Lit ''['', Grp 1 (Star False (ncls ''[]'')), Lit '']'']) 1) b [] = None"
  by (simp_all add: match_at_def rx_def fails safe_not_special del: rmatch.simps)

lemma nm_BRACES2:
  "safe_char c \<Longrightarrow> match_at (rx (seqs [Lit ''{'', Grp 1 (Star True (ncls ''{}'')), Lit ''}'']) 1) b (c # cs) = None"
  "match_at (rx (seqs [Lit ''{'', Grp 1 (Star True (ncls ''{}'')), Lit ''}'']) 1) b [] = None"
  by (simp_all add: match_at_def rx_def fails safe_not_special del: rmatch.simps)

lemma normalize_rule_safe:
  assumes "list_all safe_char t"
  shows "replace_each (prule_cb E p) (prule_regexps p) t s = Inr (t, s)"
proof -
  note nr = no_match_replace[OF _ _ assms]
  show ?thesis
    by (cases p)
       (simp_all only: prule_regexps.simps TRIM_BORDERS_def TRIM_BRACES_def BRACES_def replace_each.simps
          nr[OF nm_BRACKETS] nr[OF nm_BORDERS0]
          nr[OF nm_BORDERS1] nr[OF nm_SPACES] nr[OF nm_MATH] nr[OF nm_TBRACES0] nr[OF nm_TBRACES1]
          nr[OF nm_MINUS] nr[OF nm_BRACES0] nr[OF nm_BRACES1] nr[OF nm_BRACES2] sum.case prod.case)
qed

lemma normalize_with_safe: "list_all safe_char t \<Longrightarrow> normalize_with E ps t s = Inr (t, s)"
  by (induction ps) (simp_all add: normalize_rule_safe)

lemma normalize_safe: "list_all safe_char t \<Longrightarrow> normalize E t s = Inr (t, s)"
  by (simp add: normalize_def normalize_with_safe)

lemma not_includes: "c \<notin> set t \<Longrightarrow> \<not> includes_js t (c # k)"
  by (induction t) auto

lemma safe_set: "list_all safe_char t \<Longrightarrow> c \<in> set t \<Longrightarrow> safe_char c"
  by (simp add: list_all_iff)

lemma safe_no_keys:
  assumes "list_all safe_char t"
  shows "\<not> includes_js t (crule_key r)"
proof -
  have "CHR '';'' \<notin> set t" using safe_set[OF assms] safe_not_special(13) by blast
  moreover have "CHR ''|'' \<notin> set t" using safe_set[OF assms] safe_not_special(14) by blast
  moreover have "CHR ''&'' \<notin> set t" using safe_set[OF assms] safe_not_special(15) by blast
  moreover have "CHR ''?'' \<notin> set t" using safe_set[OF assms] safe_not_special(16) by blast
  moreover have "CHR ''>'' \<notin> set t" using safe_set[OF assms] safe_not_special(4) by blast
  moreover have "CHR '' '' \<notin> set t" using safe_set[OF assms] safe_not_special(23) by blast
  ultimately show ?thesis by (cases r) (simp_all add: not_includes del: includes_js.simps)
qed

lemma parseCommand_safe: "list_all safe_char t \<Longrightarrow> parseCommand E rs t s = Inr (Leaf t, s)"
  by (induction rs) (simp_all add: normalize_safe safe_no_keys)

lemma exec_safe: "list_all safe_char t \<Longrightarrow> exec E rec t x a s = rec (ExecCommand (Leaf t) x a) s"
  by (simp add: exec_def parseCommand_safe)

lemma name_safe: "name_chars x \<Longrightarrow> list_all safe_char (CHR ''$'' # x)"
  by (auto simp: name_chars_def safe_char_def list_all_iff)

lemma parse_variable:
  assumes "name_chars x" and "\<not> isPromise v"
    and "v = read_var \<lparr>scope_of = S(''context'' \<mapsto> ctx), vars_of = G\<rparr> x"
  shows "parse_value E (Suc (Suc (Suc (Suc n)))) (CHR ''$'' # x) S G ctx a = Inr v"
proof -
  let ?s = "\<lparr>scope_of = S(''context'' \<mapsto> ctx), vars_of = G\<rparr>"
  have "ev E (Suc (Suc (Suc n))) (ExecCommand (Leaf (CHR ''$'' # x)) True a) ?s = Inr (v, ?s)"
    using ev_variable_leaf[OF assms(1), where s="?s" and n=n and b=True and a=a and E=E] assms(2,3) by simp
  then show ?thesis
    unfolding parse_value_def parse_def parse_in_def set_scope_def ev_exec
    by (simp add: exec_safe[OF name_safe[OF assms(1)]] del: ev.simps)
qed

lemma parse_assigned:
  assumes "name_chars x" and "x \<noteq> ''context''" and "is_nullish (lookup S x)"
    and "\<not> is_nullish w" and "\<not> isPromise w"
  shows "parse_value E (Suc (Suc (Suc (Suc n)))) (CHR ''$'' # x) S (G(x \<mapsto> w)) ctx a = Inr w"
proof -
  have "w = read_var \<lparr>scope_of = S(''context'' \<mapsto> ctx), vars_of = G(x \<mapsto> w)\<rparr> x"
    using assms(2,3,4) by (simp add: read_var_def lookup_def nullish_or_def)
  from parse_variable[OF assms(1) assms(5) this] show ?thesis .
qed

section \<open>The binding of the arguments of a command\<close>

lemma bind_plain_after_option:
  assumes "b_optional st" "b_key st = None" "is_plain tok"
    and "\<exists>d \<in> set ds. arg_name d \<noteq> ''scope'' \<and> arg_name d \<noteq> ''mode''"
  shows "bind_from E c i ds (tok # rest) st = Inl WrongArgumentPosition"
  using assms
proof (induction ds arbitrary: i st)
  case Nil
  then show ?case by simp
next
  case (Cons d ds)
  show ?case
  proof (cases "arg_name d = ''scope'' \<or> arg_name d = ''mode''")
    case True
    then have ex: "\<exists>d \<in> set ds. arg_name d \<noteq> ''scope'' \<and> arg_name d \<noteq> ''mode''"
      using Cons.prems(4) by auto
    show ?thesis
    proof (cases "arg_name d = ''scope''")
      case True
      then show ?thesis
        using Cons.IH[of "st\<lparr>b_callbackArgs := set_idx (b_callbackArgs st) i VScope\<rparr>" "Suc i"] Cons.prems ex
        by simp
    next
      case False
      with True have m: "arg_name d = ''mode''" by simp
      show ?thesis
      proof (cases "i < length (cmd_args c)")
        case True
        then show ?thesis using Cons.IH[of st "Suc i"] Cons.prems ex m by simp
      next
        case False
        then show ?thesis using Cons.prems m by (simp add: is_plain_def)
      qed
    qed
  next
    case False
    then show ?thesis using Cons.prems by (simp add: is_plain_def)
  qed
qed

lemma drain_option_after_variadic:
  assumes "b_variadic st" "b_key st = None" "\<not> b_optional st" "arg_variadic d"
    and "\<exists>t \<in> set toks. is_long t \<or> is_short t"
  shows "drain E c i d toks st = Inl WrongArgumentPosition"
  using assms
proof (induction toks arbitrary: st)
  case Nil
  then show ?case by simp
next
  case (Cons t toks)
  show ?case
  proof (cases "is_long t \<or> is_short t")
    case True
    then show ?thesis using Cons.prems by auto
  next
    case False
    then have "\<exists>t \<in> set toks. is_long t \<or> is_short t" using Cons.prems(5) by auto
    then show ?thesis
      using False Cons.prems Cons.IH[of "st\<lparr>b_lastArgs := b_lastArgs st @ [t], b_variadic := True\<rparr>"]
      by simp
  qed
qed

lemma drain_variadic_start:
  assumes "\<not> b_optional st" "b_key st = None" "arg_variadic d" "is_plain tok"
    and "\<exists>t \<in> set toks. is_long t \<or> is_short t"
  shows "drain E c i d (tok # toks) st = Inl WrongArgumentPosition"
  using assms drain_option_after_variadic[of "st\<lparr>b_lastArgs := b_lastArgs st @ [tok], b_variadic := True\<rparr>" d toks E c i]
  by (simp add: is_plain_def)

lemma drain_flags_persist:
  "drain E c i d toks st = Inr (toks', st') \<Longrightarrow>
     (b_optional st \<longrightarrow> b_optional st') \<and> (b_variadic st \<longrightarrow> b_variadic st')"
proof (induction toks arbitrary: st)
  case Nil
  then show ?case by simp
next
  case (Cons t toks)
  then show ?case
    by (auto simp: Let_def split: if_splits option.splits sum.splits)
qed

lemma drain_long_sets_optional:
  "is_long tok \<Longrightarrow> drain E c i d (tok # rest) st = Inr (toks', st') \<Longrightarrow> b_optional st'"
  using drain_flags_persist[of E c i d rest _ toks' st']
  by (auto simp: Let_def split: if_splits)
section \<open>The left fold of the math rules\<close>


section \<open>Evaluated examples\<close>

lemma plain_name_x: "plain_name test_env ''x''"
  by (simp add: plain_name_def name_chars_def test_env_def is_word_def is_lower_def is_digit_def
      is_upper_def toLowerCase_def lower_char_def)

lemma lookup_no_vars: "lookup no_vars k = VUndef"
  by (simp add: lookup_def no_vars_def)



lemma parse_out_example:
  "map_sum id (\<lambda>(v, s). (v, vars_of s ''x'', scope_of s ''x''))
     (parse test_env 20 ''5 >> x'' no_vars no_vars VNull False) = Inr (VNum 5, Some (VNum 5), None)"
  by code_simp


lemma execFn_examples:
  "execFn test_env ''concat'' [VStr ''--delim'', VStr '','', VStr ''a''] = Inl WrongArgumentPosition"
  "execFn test_env ''concat'' [VStr ''x'', VStr ''y'', VStr ''--delim'', VStr '',''] = Inl WrongArgumentPosition"
  "execFn test_env ''min'' [VNum 1, VStr ''-a''] = Inl WrongArgumentPosition"
  by code_simp+

lemma ordering_examples:
  "drain test_env concat_command 2 (cmd_args concat_command ! 2) [VStr ''--delim'', VStr '','']
      \<lparr>b_lastArgs = [], b_key = None, b_callbackArgs = [], b_optional = False, b_variadic = False\<rparr>
     = Inr ([], \<lparr>b_lastArgs = [], b_key = None, b_callbackArgs = [VUndef, VUndef, VStr '',''],
                 b_optional = True, b_variadic = False\<rparr>)"
  "arg_name (cmd_args concat_command ! 3) = ''args''"
  "arg_variadic (cmd_args min_command ! 0)"
  by code_simp+

section \<open>The sequence rule\<close>

text \<open>
  Claim C2. The claim says that \<^verbatim>\<open>parse("a; b")\<close> returns what \<^verbatim>\<open>parse("b")\<close> returns and
  that \<^verbatim>\<open>parse("a;")\<close> returns what \<^verbatim>\<open>parse("a")\<close> returns. The loop of the rule \<^verbatim>\<open>end\<close> sets
  its result to undefined at an empty child, so \<^verbatim>\<open>parse("1;")\<close> is undefined and
  \<^verbatim>\<open>parse("1")\<close> is 1. What holds: when the children before the last one raise no error, the
  result of a sequence is undefined when its last child is empty, and otherwise it is the
  result of the last child, evaluated in the state that the earlier children leave.
\<close>

theorem sequence_last_child:
  "ev E (Suc n) (ExecCommand (Node C_end (parts @ [p])) x a) s =
     (case end_loop (ev E n) a parts VUndef s of
        Inl e \<Rightarrow> Inl e
      | Inr (r, s') \<Rightarrow>
          if is_empty_part p then Inr (VUndef, s')
          else map_val (aw a) (ev E n (ExecCommand p True a) s'))"
  unfolding ev_node
  by (auto simp: end_loop_snoc map_val_def aw_def await_val_idem split: sum.splits)

theorem sequence_last_child_witness:
  "ev test_env (Suc (Suc (Suc 0))) (ExecCommand (Node C_end ([Leaf ''4''] @ [Leaf ''5''])) True False) empty_state
     = Inr (VNum 5, empty_state)
   \<and> ev test_env (Suc (Suc (Suc 0))) (ExecCommand (Node C_end ([Leaf ''5''] @ [Leaf []])) True False) empty_state
     = Inr (VUndef, empty_state)"
  using sequence_last_child [of test_env "Suc (Suc 0)" "[Leaf ''4'']" "Leaf ''5''" True False empty_state]
        sequence_last_child [of test_env "Suc (Suc 0)" "[Leaf ''5'']" "Leaf []" True False empty_state]
  by (simp add: number_leaf is_empty_part_def isEmptyString_def trim_js_def is_space_def
      map_val_def aw_def del: ev.simps)

theorem sequence_trailing_semicolon:
  "parse_value test_env 20 ''1;'' no_vars no_vars VNull False = Inr VUndef
   \<and> parse_value test_env 20 ''1'' no_vars no_vars VNull False = Inr (VNum 1)"
  by code_simp

section \<open>The pipe rule\<close>

text \<open>
  Claim C3. The claim says that \<^verbatim>\<open>parse("x | $context")\<close> returns what \<^verbatim>\<open>parse("x")\<close> returns
  for every \<open>x\<close>. A reference reads null as undefined, so \<^verbatim>\<open>parse("null | $context")\<close> is
  undefined and \<^verbatim>\<open>parse("null")\<close> is null. What holds: when \<open>x\<close> evaluates to a value that is
  neither null nor undefined nor deferred, the chain \<^verbatim>\<open>x | $context\<close> evaluates to that
  value; and after a chain of any length that raises no error, \<^verbatim>\<open>scope.context\<close> reads as
  it did before the chain.
\<close>

theorem pipe_context:
  "(ev E (Suc (Suc (Suc n))) (ExecCommand x True a) s = Inr (r, s1)
      \<and> \<not> is_nullish (aw a r) \<and> \<not> isPromise (aw a r) \<longrightarrow>
    ev E (Suc (Suc (Suc (Suc n)))) (ExecCommand (Node C_context [x, Leaf ''$context'']) True a) s
      = Inr (aw a r, set_scope ''context'' (lookup (scope_of s) ''context'') s1))
   \<and> (ev E (Suc m) (ExecCommand (Node C_context parts) b a') s0 = Inr (v, s') \<longrightarrow>
        lookup (scope_of s') ''context'' = lookup (scope_of s0) ''context'')"
  using pipe_to_context [of E n x a s r s1] pipe_restores [of E m parts b a' s0 v s']
  by blast

theorem pipe_context_witness:
  "ev test_env (Suc (Suc (Suc (Suc 0)))) (ExecCommand (Node C_context [Leaf ''5'', Leaf ''$context'']) True False)
      \<lparr>scope_of = no_vars(''context'' \<mapsto> VNum 7), vars_of = no_vars\<rparr>
     = Inr (VNum 5, \<lparr>scope_of = no_vars(''context'' \<mapsto> VNum 7), vars_of = no_vars\<rparr>)
   \<and> lookup (no_vars(''context'' \<mapsto> VNum 7)) ''context'' = VNum 7"
  using pipe_context [where E = test_env and n = 0 and x = "Leaf ''5''" and a = False
          and s = "\<lparr>scope_of = no_vars(''context'' \<mapsto> VNum 7), vars_of = no_vars\<rparr>" and r = "VNum 5"
          and ?s1.0 = "\<lparr>scope_of = no_vars(''context'' \<mapsto> VNum 7), vars_of = no_vars\<rparr>"
          and m = "Suc (Suc (Suc 0))" and parts = "[Leaf ''5'', Leaf ''$context'']" and b = True
          and a' = False and ?s0.0 = "\<lparr>scope_of = no_vars(''context'' \<mapsto> VNum 7), vars_of = no_vars\<rparr>"
          and v = "VNum 5" and s' = "\<lparr>scope_of = no_vars(''context'' \<mapsto> VNum 7), vars_of = no_vars\<rparr>"]
  by (simp add: number_leaf aw_def is_nullish_def set_scope_def lookup_def del: ev.simps)

theorem pipe_context_null:
  "parse_value test_env 20 ''null | $context'' no_vars no_vars VNull False = Inr VUndef
   \<and> parse_value test_env 20 ''null'' no_vars no_vars VNull False = Inr VNull"
  by code_simp

section \<open>The assignment rule\<close>




text \<open>
  Claim C10. \<^verbatim>\<open>setVar\<close> with a simple name returns the global store with the name bound to
  the value, and has no access to a scope. The rule \<^verbatim>\<open>>>\<close> with a name that is not a command
  leaves the state that the evaluation of its first child leaves, with the name bound in the
  global store: the scope is not written. A later call of \<^verbatim>\<open>parse\<close> with another scope, which
  has no value for the name, reads the assigned value from the global store when it is
  neither null nor undefined nor deferred.
\<close>

theorem out_writes_global_store:
  "setVar (VStr x) w G = Inr (G(x \<mapsto> w))
   \<and> (plain_name E x \<and> ev E (Suc (Suc n)) (ExecCommand v True a) s = Inr (r, s1) \<longrightarrow>
        ev E (Suc (Suc (Suc n))) (ExecCommand (Node C_out [v, Leaf x]) True a) s
          = Inr (aw a r, s1\<lparr>vars_of := (vars_of s1)(x \<mapsto> aw a r)\<rparr>))
   \<and> (name_chars x \<and> x \<noteq> ''context'' \<and> is_nullish (lookup S x) \<and> \<not> is_nullish w \<and> \<not> isPromise w \<longrightarrow>
        parse_value E (Suc (Suc (Suc (Suc m)))) (CHR ''$'' # x) S (G(x \<mapsto> w)) ctx b = Inr w)"
  using out_assigns [of E n v a s r s1 x] parse_assigned [of x S w E m G ctx b]
  by (simp add: setVar_def del: ev.simps)

theorem out_writes_global_store_witness:
  "setVar (VStr ''x'') (VNum 5) no_vars = Inr (no_vars(''x'' \<mapsto> VNum 5))
   \<and> ev test_env (Suc (Suc (Suc 0))) (ExecCommand (Node C_out [Leaf ''5'', Leaf ''x'']) True False) empty_state
       = Inr (VNum 5, empty_state\<lparr>vars_of := (vars_of empty_state)(''x'' \<mapsto> VNum 5)\<rparr>)
   \<and> parse_value test_env (Suc (Suc (Suc (Suc 0)))) ''$x'' no_vars (no_vars(''x'' \<mapsto> VNum 5)) VNull False
       = Inr (VNum 5)
   \<and> map_sum id (\<lambda>(v, s). (v, vars_of s ''x'', scope_of s ''x''))
       (parse test_env 20 ''5 >> x'' no_vars no_vars VNull False) = Inr (VNum 5, Some (VNum 5), None)"
  using out_writes_global_store [where x = "''x''" and w = "VNum 5" and G = no_vars and E = test_env
          and n = 0 and v = "Leaf ''5''" and a = False and s = empty_state and r = "VNum 5"
          and ?s1.0 = empty_state and S = no_vars and m = 0 and ctx = VNull and b = False]
        plain_name_x
  by (simp add: number_leaf parse_out_example plain_name_def aw_def is_nullish_def lookup_no_vars
      del: ev.simps)

section \<open>The order of the arguments of a command\<close>

text \<open>
  Claim C5. The claim says that after any \<^verbatim>\<open>--name\<close> or \<^verbatim>\<open>-xyz\<close> every later plain token raises
  WrongArgumentPosition, and that after a variadic descriptor has begun to collect, every
  later \<^verbatim>\<open>--name\<close> or \<^verbatim>\<open>-xyz\<close> raises it. A run of short flags does not set the flag that
  forbids plain tokens, the plain token after \<^verbatim>\<open>--name\<close> is the value of that option, and a
  variadic descriptor that collects through its \<^verbatim>\<open>--name\<close> accepts a later option:
  \<^verbatim>\<open>concat -a x y\<close> returns \<^verbatim>\<open>y\<close>. What holds: a long option sets the flag; once the
  flag is set and no option waits for its value, a plain token that meets a descriptor other
  than \<^verbatim>\<open>scope\<close> and \<^verbatim>\<open>mode\<close> raises WrongArgumentPosition; and once a variadic descriptor
  collects plain tokens by position, a later \<^verbatim>\<open>--name\<close> or \<^verbatim>\<open>-xyz\<close> raises it.
\<close>

theorem execFn_ordering:
  "(is_long t0 \<and> drain E c j d0 (t0 # r0) st0 = Inr (toks1, st1) \<longrightarrow> b_optional st1)
   \<and> (b_optional st \<and> b_key st = None \<and> is_plain tok
        \<and> (\<exists>d \<in> set ds. arg_name d \<noteq> ''scope'' \<and> arg_name d \<noteq> ''mode'') \<longrightarrow>
      bind_from E c i ds (tok # rest) st = Inl WrongArgumentPosition)
   \<and> (\<not> b_optional st' \<and> b_key st' = None \<and> arg_variadic d \<and> is_plain tok'
        \<and> (\<exists>t \<in> set toks. is_long t \<or> is_short t) \<longrightarrow>
      drain E c i' d (tok' # toks) st' = Inl WrongArgumentPosition)"
  using drain_long_sets_optional [of t0 E c j d0 r0 st0 toks1 st1]
        bind_plain_after_option [of st tok ds E c i rest]
        drain_variadic_start [of st' d tok' toks E c i']
  by blast

theorem execFn_ordering_witness:
  "drain test_env concat_command 2 (cmd_args concat_command ! 2) [VStr ''--delim'', VStr '','']
      \<lparr>b_lastArgs = [], b_key = None, b_callbackArgs = [], b_optional = False, b_variadic = False\<rparr>
     = Inr ([], \<lparr>b_lastArgs = [], b_key = None, b_callbackArgs = [VUndef, VUndef, VStr '',''],
                 b_optional = True, b_variadic = False\<rparr>)
   \<and> bind_from test_env concat_command 3 [cmd_args concat_command ! 3] [VStr ''a'']
       \<lparr>b_lastArgs = [], b_key = None, b_callbackArgs = [VUndef, VUndef, VStr '',''],
        b_optional = True, b_variadic = False\<rparr> = Inl WrongArgumentPosition
   \<and> drain test_env min_command 0 (cmd_args min_command ! 0) [VNum 1, VStr ''-a'']
       \<lparr>b_lastArgs = [], b_key = None, b_callbackArgs = [], b_optional = False, b_variadic = False\<rparr>
     = Inl WrongArgumentPosition
   \<and> execFn test_env ''concat'' [VStr ''--delim'', VStr '','', VStr ''a''] = Inl WrongArgumentPosition
   \<and> execFn test_env ''min'' [VNum 1, VStr ''-a''] = Inl WrongArgumentPosition"
  using execFn_ordering [where ?t0.0 = "VStr ''--delim''" and E = test_env and c = concat_command and j = 2
          and ?d0.0 = "cmd_args concat_command ! 2" and ?r0.0 = "[VStr '','']"
          and ?st0.0 = "\<lparr>b_lastArgs = [], b_key = None, b_callbackArgs = [], b_optional = False, b_variadic = False\<rparr>"
          and ?toks1.0 = "[]"
          and ?st1.0 = "\<lparr>b_lastArgs = [], b_key = None, b_callbackArgs = [VUndef, VUndef, VStr '',''],
                 b_optional = True, b_variadic = False\<rparr>"
          and st = "\<lparr>b_lastArgs = [], b_key = None, b_callbackArgs = [VUndef, VUndef, VStr '',''],
                 b_optional = True, b_variadic = False\<rparr>"
          and tok = "VStr ''a''" and ds = "[cmd_args concat_command ! 3]" and i = 3 and rest = "[]"]
        execFn_ordering [where c = min_command and E = test_env and i' = 0 and d = "cmd_args min_command ! 0"
          and tok' = "VNum 1" and toks = "[VStr ''-a'']"
          and st' = "\<lparr>b_lastArgs = [], b_key = None, b_callbackArgs = [], b_optional = False, b_variadic = False\<rparr>"]
        execFn_examples(1,3) ordering_examples
  by (simp add: is_plain_def is_long_def is_short_def del: drain.simps bind_from.simps)

theorem execFn_short_flags_then_plain:
  "execFn test_env ''concat'' [VStr ''-a'', VStr ''x'', VStr ''y''] = Inr (VStr ''y'')"
  by code_simp

section \<open>The math rules\<close>


section \<open>Line directives of JS templates\<close>




section \<open>Variable lookup and assignment\<close>

text \<open>
  Claim C8. For a simple name, \<^verbatim>\<open>getVar(name, S, d)\<close> returns \<^verbatim>\<open>S[name]\<close> when that is neither
  null nor undefined, otherwise the value of the global store when that is neither null nor
  undefined, otherwise the default \<open>d\<close>: the scope is preferred over the global store.
\<close>

theorem getVar_simple_name:
  "getVar (VStr name) S G d =
     Inr (if \<not> is_nullish (lookup S name) then lookup S name
          else if \<not> is_nullish (lookup G name) then lookup G name
          else d)"
  by (simp add: nullish_or_def)

theorem getVar_simple_name_witness:
  "getVar (VStr ''x'') (no_vars(''x'' \<mapsto> VNum 1)) (no_vars(''x'' \<mapsto> VNum 2)) VUndef = Inr (VNum 1)
   \<and> getVar (VStr ''x'') (no_vars(''x'' \<mapsto> VNull)) (no_vars(''x'' \<mapsto> VNum 2)) VUndef = Inr (VNum 2)
   \<and> getVar (VStr ''x'') no_vars no_vars (VNum 3) = Inr (VNum 3)"
  using getVar_simple_name [of "''x''" "no_vars(''x'' \<mapsto> VNum 1)" "no_vars(''x'' \<mapsto> VNum 2)" VUndef]
        getVar_simple_name [of "''x''" "no_vars(''x'' \<mapsto> VNull)" "no_vars(''x'' \<mapsto> VNum 2)" VUndef]
        getVar_simple_name [of "''x''" no_vars no_vars "VNum 3"]
  by (simp add: lookup_def is_nullish_def no_vars_def)

text \<open>
  Claim C9. The claim says that \<^verbatim>\<open>setVar\<close> fails with PropertyTypeMismatch whenever a value on
  the path before the last segment is a promise. The loop of \<^verbatim>\<open>setVar\<close> tests the object it
  has come from, after it has read the next property, and never tests the object it assigns
  to: with \<^verbatim>\<open>VARS = {a: {b: promise}}\<close> the call \<^verbatim>\<open>setVar(["a", "b", "c"], 1)\<close> assigns the
  property \<^verbatim>\<open>c\<close> of the promise and fails with nothing, and with one more segment it fails
  with PropertyNotFound. Only a promise at the head of the path is refused.
\<close>

theorem setVar_promise_intermediate:
  "map_sum id (\<lambda>G. G ''a'')
     (setVar (VArr [VStr ''a'', VStr ''b'', VStr ''c'']) (VNum 1)
        (no_vars(''a'' \<mapsto> VObj [(''b'', VPromise [] (VNum 7))])))
     = Inr (Some (VObj [(''b'', VPromise [(''c'', VNum 1)] (VNum 7))]))
   \<and> setVar (VArr [VStr ''a'', VStr ''b'', VStr ''c'', VStr ''d'']) (VNum 1)
        (no_vars(''a'' \<mapsto> VObj [(''b'', VPromise [] (VNum 7))])) = Inl PropertyNotFound
   \<and> setVar (VArr [VStr ''a'', VStr ''b'']) (VNum 1) (no_vars(''a'' \<mapsto> VPromise [] (VNum 7)))
       = Inl PropertyTypeMismatch"
  by (simp add: setVar_def lookup_def no_vars_def getProperty_def checkProperty_def has_own_def
      get_prop_def is_nullish_def assign_prop_def)

end
